theory Spec2Isabelle
  imports Main "HOL-Library.Monad_Syntax"
begin

section \<open>The SmartPlug client of pyedimax (src/pyedimax/smartplug.py)\<close>

text \<open>
  The module holds one class, \<^verbatim>\<open>SmartPlug\<close>: a constructor that probes the plug for
  its authentication scheme, two builders of XML commands, two helpers that POST a
  command and read the reply, and four property accessors. The class calls into
  \<^verbatim>\<open>xml.dom.minidom\<close>, \<^verbatim>\<open>requests\<close> and the builtin \<^verbatim>\<open>float\<close>. The DOM calls the
  builders make are modelled here after CPython's \<^verbatim>\<open>Lib/xml/dom/minidom.py\<close>; the
  network, the XML parser and \<^verbatim>\<open>float\<close> are parameters (record \<open>env\<close> below), so
  every theorem holds whatever the plug answers.
\<close>

subsection \<open>Python values and exceptions\<close>

text \<open>
  The argument of the \<^verbatim>\<open>state\<close> setter is an arbitrary Python object; \<^verbatim>\<open>==\<close> between a
  \<^verbatim>\<open>str\<close> and an object of another builtin type is \<^verbatim>\<open>False\<close>.
\<close>

datatype pyval = PyNone | PyBool bool | PyInt int | PyStr string

text \<open>
  Every exception the module can raise or let through. \<open>RequestException\<close> stands for
  whatever \<^verbatim>\<open>requests.head\<close> and \<^verbatim>\<open>requests.post\<close> raise (connection refused, timeout);
  \<open>DOMException\<close> for a \<^verbatim>\<open>minidom\<close> call that raises while a command is built;
  \<open>Exception\<close> carries the message of a bare \<^verbatim>\<open>raise Exception(msg)\<close>.
\<close>

datatype error =
    RequestException string
  | KeyError string
  | ExpatError string
  | IndexError
  | AttributeError
  | TypeError
  | ValueError
  | DOMException
  | Exception string

subsection \<open>The DOM under construction (minidom, mutable nodes)\<close>

text \<open>
  The builders create nodes and then mutate them: \<^verbatim>\<open>cmd.appendChild(state)\<close> comes
  before \<^verbatim>\<open>state.appendChild(doc.createTextNode(cmdStr))\<close>, and the text must still
  show under \<^verbatim>\<open>cmd\<close>. Nodes therefore live in a store and refer to their children by
  address; an address is the index of the node in the store.
\<close>

type_synonym addr = nat

datatype dom_node =
    Document "addr list"
  | Element string "(string \<times> string) list" "addr list"
  | Text string

type_synonym dom_heap = "dom_node list"

definition lookup :: "dom_heap \<Rightarrow> addr \<Rightarrow> dom_node option" where
  "lookup h a = (if a < length h then Some (h ! a) else None)"

definition alloc :: "dom_node \<Rightarrow> dom_heap \<Rightarrow> addr \<times> dom_heap" where
  "alloc n h = (length h, h @ [n])"

fun without_child :: "addr \<Rightarrow> dom_node \<Rightarrow> dom_node" where
  "without_child c (Document kids) = Document (remove1 c kids)"
| "without_child c (Element tag attrs kids) = Element tag attrs (remove1 c kids)"
| "without_child c (Text d) = Text d"

text \<open>\<^verbatim>\<open>if node.parentNode is not None: node.parentNode.removeChild(node)\<close>\<close>

definition detach :: "addr \<Rightarrow> dom_heap \<Rightarrow> dom_heap" where
  "detach c h = map (without_child c) h"

fun is_Element :: "dom_node option \<Rightarrow> bool" where
  "is_Element (Some (Element _ _ _)) = True"
| "is_Element _ = False"

text \<open>\<^verbatim>\<open>Document.documentElement\<close>: the first child that is an element, or \<^verbatim>\<open>None\<close>.\<close>

definition documentElement :: "addr \<Rightarrow> dom_heap \<Rightarrow> addr option" where
  "documentElement doc h =
     (case lookup h doc of
        Some (Document kids) \<Rightarrow>
          (case filter (\<lambda>k. is_Element (lookup h k)) kids of [] \<Rightarrow> None | k # _ \<Rightarrow> Some k)
      | _ \<Rightarrow> None)"

text \<open>
  \<^verbatim>\<open>Node.appendChild\<close> and \<^verbatim>\<open>Document.appendChild\<close>. \<open>None\<close> is a raise: a text node
  takes no children, an element takes no document, a document takes one element only.
\<close>

definition appendChild :: "addr \<Rightarrow> addr \<Rightarrow> dom_heap \<Rightarrow> dom_heap option" where
  "appendChild parent node h =
     (case lookup h parent of
        Some (Element tag attrs _) \<Rightarrow>
          (case lookup h node of
             None \<Rightarrow> None
           | Some (Document _) \<Rightarrow> None
           | Some _ \<Rightarrow>
               (let h' = detach node h in
                case lookup h' parent of
                  Some (Element _ _ kids) \<Rightarrow> Some (h'[parent := Element tag attrs (kids @ [node])])
                | _ \<Rightarrow> None))
      | Some (Document _) \<Rightarrow>
          (case lookup h node of
             Some (Element _ _ _) \<Rightarrow>
               (let h' = detach node h in
                case documentElement parent h' of
                  Some _ \<Rightarrow> None
                | None \<Rightarrow>
                    (case lookup h' parent of
                       Some (Document kids) \<Rightarrow> Some (h'[parent := Document (kids @ [node])])
                     | _ \<Rightarrow> None))
           | _ \<Rightarrow> None)
      | _ \<Rightarrow> None)"

definition createElement :: "string \<Rightarrow> dom_heap \<Rightarrow> (addr \<times> dom_heap) option" where
  "createElement tagName h = Some (alloc (Element tagName [] []) h)"

definition createTextNode :: "string \<Rightarrow> dom_heap \<Rightarrow> (addr \<times> dom_heap) option" where
  "createTextNode data h = Some (alloc (Text data) h)"

text \<open>
  \<^verbatim>\<open>DOMImplementation.createDocument(None, qualifiedName, None)\<close>: a document whose only
  child is a new element of that name.
\<close>

definition createDocument :: "string \<Rightarrow> dom_heap \<Rightarrow> (addr \<times> dom_heap) option" where
  "createDocument qualifiedName h =
     do {
       (doc, h) \<leftarrow> Some (alloc (Document []) h);
       (element, h) \<leftarrow> createElement qualifiedName h;
       h \<leftarrow> appendChild doc element h;
       Some (doc, h)
     }"

text \<open>Attributes keep their insertion order; setting an existing one replaces its value.\<close>

fun set_attr :: "string \<Rightarrow> string \<Rightarrow> (string \<times> string) list \<Rightarrow> (string \<times> string) list" where
  "set_attr k v [] = [(k, v)]"
| "set_attr k v ((k', v') # ps) = (if k' = k then (k, v) # ps else (k', v') # set_attr k v ps)"

definition setAttribute :: "addr \<Rightarrow> string \<Rightarrow> string \<Rightarrow> dom_heap \<Rightarrow> dom_heap option" where
  "setAttribute el attname v h =
     (case lookup h el of
        Some (Element tag attrs kids) \<Rightarrow> Some (h[el := Element tag (set_attr attname v attrs) kids])
      | _ \<Rightarrow> None)"

text \<open>
  \<^verbatim>\<open>_write_data\<close>: \<^verbatim>\<open>data.replace("&", "&amp;").replace("<", "&lt;").replace("\"",
  "&quot;").replace(">", "&gt;")\<close>. The ampersand goes first, so the four replacements
  act on each character of the original text on its own.
\<close>

fun escape_char :: "char \<Rightarrow> string" where
  "escape_char c =
     (if c = CHR ''&'' then ''&amp;''
      else if c = CHR ''<'' then ''&lt;''
      else if c = CHR 0x22 then ''&quot;''
      else if c = CHR ''>'' then ''&gt;''
      else [c])"

definition write_data :: "string \<Rightarrow> string" where
  "write_data data = concat (map escape_char data)"

definition write_attr :: "string \<times> string \<Rightarrow> string" where
  \<open>write_attr a = '' '' @ fst a @ ''="'' @ write_data (snd a) @ ''"''\<close>

text \<open>
  \<^verbatim>\<open>writexml\<close> as \<^verbatim>\<open>toxml()\<close> calls it: \<^verbatim>\<open>indent\<close>, \<^verbatim>\<open>addindent\<close> and \<^verbatim>\<open>newl\<close> are all
  empty, and the document writes the declaration \<^verbatim>\<open><?xml version="1.0" ?>\<close> before its
  children. An element writes \<^verbatim>\<open><tag/>\<close> only when its list of children is empty; one
  child, even an empty text node, makes it write an opening and a closing tag. The
  recursion follows addresses, so it carries fuel; \<open>None\<close> is a descent that never ends
  or meets a dangling address.
\<close>

fun writexml :: "nat \<Rightarrow> dom_heap \<Rightarrow> addr \<Rightarrow> string option" where
  "writexml 0 h a = None"
| \<open>writexml (Suc fuel) h a =
     (case lookup h a of
        None \<Rightarrow> None
      | Some (Text data) \<Rightarrow> Some (write_data data)
      | Some (Element tagName attrs childNodes) \<Rightarrow>
          (if childNodes \<noteq> [] then
             do {
               inner \<leftarrow> those (map (writexml fuel h) childNodes);
               Some (''<'' @ tagName @ concat (map write_attr attrs) @ ''>''
                     @ concat inner @ ''</'' @ tagName @ ''>'')
             }
           else Some (''<'' @ tagName @ concat (map write_attr attrs) @ ''/>''))
      | Some (Document childNodes) \<Rightarrow>
          do {
            inner \<leftarrow> those (map (writexml fuel h) childNodes);
            Some (''<?xml version="1.0" ?>'' @ concat inner)
          })\<close>

text \<open>A tree in a store of \<open>n\<close> nodes is at most \<open>n\<close> deep.\<close>

definition toxml :: "addr \<Rightarrow> dom_heap \<Rightarrow> string option" where
  "toxml doc h = writexml (length h) h doc"

subsection \<open>The command builders\<close>

text \<open>
  \<^verbatim>\<open>_xml_cmd_setget_state(self, cmdId, cmdStr)\<close>, statement by statement. \<^verbatim>\<open>self.domi\<close> is
  the stateless DOM implementation; each call starts from an empty store.
\<close>

definition xml_cmd_setget_state :: "string \<Rightarrow> string \<Rightarrow> string option" where
  "xml_cmd_setget_state cmdId cmdStr =
     do {
       (doc, h) \<leftarrow> createDocument ''SMARTPLUG'' [];
       root \<leftarrow> documentElement doc h;
       h \<leftarrow> setAttribute root ''id'' ''edimax'' h;
       (cmd, h) \<leftarrow> createElement ''CMD'' h;
       h \<leftarrow> setAttribute cmd ''id'' cmdId h;
       (state, h) \<leftarrow> createElement ''Device.System.Power.State'' h;
       h \<leftarrow> appendChild cmd state h;
       (txt, h) \<leftarrow> createTextNode cmdStr h;
       h \<leftarrow> appendChild state txt h;
       root \<leftarrow> documentElement doc h;
       h \<leftarrow> appendChild root cmd h;
       toxml doc h
     }"

text \<open>\<^verbatim>\<open>_xml_cmd_get_now_power(self, attribute)\<close>.\<close>

definition xml_cmd_get_now_power :: "string \<Rightarrow> string option" where
  "xml_cmd_get_now_power attribute =
     do {
       (doc, h) \<leftarrow> createDocument ''SMARTPLUG'' [];
       root \<leftarrow> documentElement doc h;
       h \<leftarrow> setAttribute root ''id'' ''edimax'' h;
       (cmd, h) \<leftarrow> createElement ''CMD'' h;
       h \<leftarrow> setAttribute cmd ''id'' ''get'' h;
       (now_power, h) \<leftarrow> createElement ''NOW_POWER'' h;
       h \<leftarrow> appendChild cmd now_power h;
       (current_power, h) \<leftarrow> createElement (''Device.System.Power.'' @ attribute) h;
       h \<leftarrow> appendChild now_power current_power h;
       (txt, h) \<leftarrow> createTextNode '''' h;
       h \<leftarrow> appendChild current_power txt h;
       root \<leftarrow> documentElement doc h;
       h \<leftarrow> appendChild root cmd h;
       toxml doc h
     }"

subsection \<open>The parsed reply (minidom, read only)\<close>

text \<open>
  The document \<^verbatim>\<open>parseString\<close> returns is only read, never changed, so it is a value.
  All node kinds the parser can put into a document are kept, since \<^verbatim>\<open>firstChild\<close> may
  be any of them.
\<close>

datatype xnode =
    DocumentNode "xnode list"
  | ElementNode string "(string \<times> string) list" "xnode list"
  | TextNode string
  | CDATASectionNode string
  | CommentNode string
  | ProcessingInstructionNode string string
  | DocumentTypeNode string

text \<open>
  \<^verbatim>\<open>node.nodeValue\<close>: the data of a character-data node or processing instruction,
  \<^verbatim>\<open>None\<close> for an element, a document and a document type.
\<close>

fun nodeValue :: "xnode \<Rightarrow> string option" where
  "nodeValue (TextNode d) = Some d"
| "nodeValue (CDATASectionNode d) = Some d"
| "nodeValue (CommentNode d) = Some d"
| "nodeValue (ProcessingInstructionNode target d) = Some d"
| "nodeValue (ElementNode tag attrs kids) = None"
| "nodeValue (DocumentNode kids) = None"
| "nodeValue (DocumentTypeNode name) = None"

fun childNodes :: "xnode \<Rightarrow> xnode list" where
  "childNodes (DocumentNode kids) = kids"
| "childNodes (ElementNode tag attrs kids) = kids"
| "childNodes _ = []"

text \<open>\<^verbatim>\<open>node.firstChild\<close>: the first child, or \<^verbatim>\<open>None\<close> where there is none.\<close>

definition firstChild :: "xnode \<Rightarrow> xnode option" where
  "firstChild n = (case childNodes n of [] \<Rightarrow> None | c # _ \<Rightarrow> Some c)"

fun named :: "string \<Rightarrow> xnode \<Rightarrow> xnode list" where
  "named name (ElementNode tag attrs kids) =
     (if name = ''*'' \<or> tag = name then [ElementNode tag attrs kids] else [])"
| "named name _ = []"

text \<open>
  \<^verbatim>\<open>_get_elements_by_tagName_helper\<close>: the descendants (not the node itself) that are
  elements of the given name, in document order.
\<close>

fun getElementsByTagName :: "string \<Rightarrow> xnode \<Rightarrow> xnode list" where
  "getElementsByTagName name (DocumentNode kids) =
     concat (map (\<lambda>c. named name c @ getElementsByTagName name c) kids)"
| "getElementsByTagName name (ElementNode tag attrs kids) =
     concat (map (\<lambda>c. named name c @ getElementsByTagName name c) kids)"
| "getElementsByTagName name _ = []"

text \<open>\<^verbatim>\<open>xs[0]\<close> raises \<^verbatim>\<open>IndexError\<close> on an empty list.\<close>

definition item0 :: "'a list \<Rightarrow> error + 'a" where
  "item0 xs = (case xs of [] \<Rightarrow> Inl IndexError | x # _ \<Rightarrow> Inr x)"

text \<open>An attribute read on \<^verbatim>\<open>None\<close> raises \<^verbatim>\<open>AttributeError\<close>.\<close>

definition nodeValue_of :: "xnode option \<Rightarrow> error + string option" where
  "nodeValue_of n = (case n of None \<Rightarrow> Inl AttributeError | Some c \<Rightarrow> Inr (nodeValue c))"

definition firstChild_of :: "xnode option \<Rightarrow> error + xnode option" where
  "firstChild_of n = (case n of None \<Rightarrow> Inl AttributeError | Some c \<Rightarrow> Inr (firstChild c))"

subsection \<open>The network, the parser and \<^verbatim>\<open>float\<close>\<close>

text \<open>
  \<^verbatim>\<open>self.auth\<close> is either the pair the caller gave, which \<^verbatim>\<open>requests\<close> sends as HTTP
  Basic credentials, or an \<^verbatim>\<open>HTTPDigestAuth\<close> object.
\<close>

datatype auth = Tuple string string | HTTPDigestAuth string string

datatype scheme = Basic | Digest

fun auth_scheme :: "auth \<Rightarrow> scheme" where
  "auth_scheme (Tuple user password) = Basic"
| "auth_scheme (HTTPDigestAuth user password) = Digest"

text \<open>
  A request as the module issues it: \<^verbatim>\<open>requests.head(url)\<close> or
  \<^verbatim>\<open>requests.post(url, auth=auth, files=files)\<close>. The trace is the list of requests
  sent so far, oldest first.
\<close>

datatype request = HEAD string | POST string auth "(string \<times> string) list"

type_synonym trace = "request list"

text \<open>
  \<open>headers\<close> is the lookup \<^verbatim>\<open>res.headers[key]\<close> of the reply's header dictionary, with
  \<open>None\<close> where the lookup raises \<^verbatim>\<open>KeyError\<close>; \<open>response_text\<close> is \<^verbatim>\<open>res.text\<close>.
\<close>

record response =
  status_code :: int
  headers :: "string \<rightharpoonup> string"
  response_text :: string

text \<open>
  What lies outside the module: \<open>network\<close> gives the outcome of the last request of a
  trace (a reply, or the exception \<^verbatim>\<open>requests\<close> raises), so the plug may answer by
  everything it was sent before; \<open>parseString\<close> is \<^verbatim>\<open>xml.dom.minidom.parseString\<close>
  (a document, or the exception it raises); \<open>float_accepts\<close> holds of the strings that
  \<^verbatim>\<open>float\<close> converts without \<^verbatim>\<open>ValueError\<close>.
\<close>

record env =
  network :: "trace \<Rightarrow> error + response"
  parseString :: "string \<Rightarrow> error + xnode"
  float_accepts :: "string \<Rightarrow> bool"

definition requests_head :: "env \<Rightarrow> string \<Rightarrow> trace \<Rightarrow> (error + response) \<times> trace" where
  "requests_head env url t = (let t' = t @ [HEAD url] in (network env t', t'))"

definition requests_post ::
  "env \<Rightarrow> string \<Rightarrow> auth \<Rightarrow> (string \<times> string) list \<Rightarrow> trace \<Rightarrow> (error + response) \<times> trace" where
  "requests_post env url a files t = (let t' = t @ [POST url a files] in (network env t', t'))"

text \<open>
  \<^verbatim>\<open>float(res)\<close> where \<^verbatim>\<open>res\<close> is a \<^verbatim>\<open>str\<close> or \<^verbatim>\<open>None\<close>: \<^verbatim>\<open>TypeError\<close> on \<^verbatim>\<open>None\<close>,
  \<^verbatim>\<open>ValueError\<close> on a string that is no number. The accessors throw the converted number
  away, so only the outcome is kept.
\<close>

definition py_float :: "env \<Rightarrow> string option \<Rightarrow> error + unit" where
  "py_float env res =
     (case res of
        None \<Rightarrow> Inl TypeError
      | Some s \<Rightarrow> if float_accepts env s then Inr () else Inl ValueError)"

subsection \<open>The class \<^verbatim>\<open>SmartPlug\<close>\<close>

record SmartPlug =
  url :: string
  auth :: auth

text \<open>
  \<^verbatim>\<open>__init__(self, host, auth)\<close>. No \<^verbatim>\<open>try\<close> surrounds the probe or the header lookup:
  an exception of \<^verbatim>\<open>requests.head\<close> and the \<^verbatim>\<open>KeyError\<close> of a missing header both
  leave the constructor.
\<close>

definition init ::
  "env \<Rightarrow> string \<Rightarrow> string \<times> string \<Rightarrow> trace \<Rightarrow> (error + SmartPlug) \<times> trace" where
  "init env host credentials t =
     (let self = \<lparr>url = ''http://'' @ host @ '':10000/smartplug.cgi'',
                  auth = Tuple (fst credentials) (snd credentials)\<rparr>;
          (res, t) = requests_head env (url self) t
      in case res of
           Inl e \<Rightarrow> (Inl e, t)
         | Inr r \<Rightarrow>
             (case headers r ''WWW-Authenticate'' of
                None \<Rightarrow> (Inl (KeyError ''www-authenticate''), t)
              | Some h \<Rightarrow>
                  if take 6 h = ''Digest''
                  then (Inr (self\<lparr>auth := HTTPDigestAuth (fst credentials) (snd credentials)\<rparr>), t)
                  else (Inr self, t)))"

text \<open>
  The \<^verbatim>\<open>try\<close> block of \<^verbatim>\<open>_post_xml\<close>: the first \<^verbatim>\<open>CMD\<close> element of the document, the
  value of its first child, and when that is \<^verbatim>\<open>None\<close> the value of the first child of
  the first \<^verbatim>\<open>Device.System.Power.State\<close> element below it.
\<close>

definition post_xml_value :: "xnode \<Rightarrow> error + string option" where
  "post_xml_value dom' =
     (case item0 (getElementsByTagName ''CMD'' dom') of
        Inl e \<Rightarrow> Inl e
      | Inr cmd \<Rightarrow>
          (case nodeValue_of (firstChild cmd) of
             Inl e \<Rightarrow> Inl e
           | Inr (Some val) \<Rightarrow> Inr (Some val)
           | Inr None \<Rightarrow>
               (case item0 (getElementsByTagName ''Device.System.Power.State'' cmd) of
                  Inl e \<Rightarrow> Inl e
                | Inr state \<Rightarrow> nodeValue_of (firstChild state))))"

text \<open>
  \<^verbatim>\<open>_post_xml(self, xml)\<close>. The status is compared with \<^verbatim>\<open>requests.codes.ok\<close>, which is
  200. \<^verbatim>\<open>parseString\<close> stands before the \<^verbatim>\<open>try\<close>, so its exception leaves the method;
  an exception inside the \<^verbatim>\<open>try\<close> is printed and the method returns \<^verbatim>\<open>None\<close>, as it
  does for every other status. (What is printed is not modelled.)
\<close>

definition post_xml ::
  "env \<Rightarrow> SmartPlug \<Rightarrow> string \<Rightarrow> trace \<Rightarrow> (error + string option) \<times> trace" where
  "post_xml env self xml t =
     (let files = [(''file'', xml)];
          (res, t) = requests_post env (url self) (auth self) files t
      in case res of
           Inl e \<Rightarrow> (Inl e, t)
         | Inr r \<Rightarrow>
             if status_code r = 200 then
               (case parseString env (response_text r) of
                  Inl e \<Rightarrow> (Inl e, t)
                | Inr dom' \<Rightarrow>
                    (case post_xml_value dom' of
                       Inr val \<Rightarrow> (Inr val, t)
                     | Inl e \<Rightarrow> (Inr None, t)))
             else (Inr None, t))"

text \<open>The \<^verbatim>\<open>try\<close> block of \<^verbatim>\<open>_post_xml_now_power\<close>.\<close>

definition post_xml_now_power_value :: "xnode \<Rightarrow> error + string option" where
  "post_xml_now_power_value dom' =
     (case item0 (getElementsByTagName ''CMD'' dom') of
        Inl e \<Rightarrow> Inl e
      | Inr cmd \<Rightarrow>
          (case nodeValue_of (firstChild cmd) of
             Inl e \<Rightarrow> Inl e
           | Inr (Some val) \<Rightarrow> Inr (Some val)
           | Inr None \<Rightarrow>
               (case item0 (getElementsByTagName ''NOW_POWER'' cmd) of
                  Inl e \<Rightarrow> Inl e
                | Inr now_power \<Rightarrow>
                    (case firstChild_of (firstChild now_power) of
                       Inl e \<Rightarrow> Inl e
                     | Inr n \<Rightarrow> nodeValue_of n))))"

text \<open>\<^verbatim>\<open>_post_xml_now_power(self, xml)\<close>.\<close>

definition post_xml_now_power ::
  "env \<Rightarrow> SmartPlug \<Rightarrow> string \<Rightarrow> trace \<Rightarrow> (error + string option) \<times> trace" where
  "post_xml_now_power env self xml t =
     (let files = [(''file'', xml)];
          (res, t) = requests_post env (url self) (auth self) files t
      in case res of
           Inl e \<Rightarrow> (Inl e, t)
         | Inr r \<Rightarrow>
             if status_code r = 200 then
               (case parseString env (response_text r) of
                  Inl e \<Rightarrow> (Inl e, t)
                | Inr dom' \<Rightarrow>
                    (case post_xml_now_power_value dom' of
                       Inr val \<Rightarrow> (Inr val, t)
                     | Inl e \<Rightarrow> (Inr None, t)))
             else (Inr None, t))"

text \<open>The getter of \<^verbatim>\<open>state\<close>: it returns \<^verbatim>\<open>res\<close> itself.\<close>

definition state_get ::
  "env \<Rightarrow> SmartPlug \<Rightarrow> trace \<Rightarrow> (error + string option) \<times> trace" where
  "state_get env self t =
     (case xml_cmd_setget_state ''get'' '''' of
        None \<Rightarrow> (Inl DOMException, t)
      | Some xml \<Rightarrow>
          (case post_xml env self xml t of
             (Inl e, t) \<Rightarrow> (Inl e, t)
           | (Inr res, t) \<Rightarrow>
               if res \<noteq> Some ''ON'' \<and> res \<noteq> Some ''OFF''
               then (Inl (Exception ''Failed to communicate with SmartPlug''), t)
               else (Inr res, t)))"

text \<open>The setter of \<^verbatim>\<open>state\<close>: it returns nothing.\<close>

definition state_set ::
  "env \<Rightarrow> SmartPlug \<Rightarrow> pyval \<Rightarrow> trace \<Rightarrow> (error + unit) \<times> trace" where
  "state_set env self v t =
     (case (if v = PyStr ''ON'' \<or> v = PyStr ''on''
            then xml_cmd_setget_state ''setup'' ''ON''
            else xml_cmd_setget_state ''setup'' ''OFF'') of
        None \<Rightarrow> (Inl DOMException, t)
      | Some xml \<Rightarrow>
          (case post_xml env self xml t of
             (Inl e, t) \<Rightarrow> (Inl e, t)
           | (Inr res, t) \<Rightarrow>
               if res \<noteq> Some ''OK''
               then (Inl (Exception ''Failed to communicate with SmartPlug''), t)
               else (Inr (), t)))"

text \<open>
  \<^verbatim>\<open>now_power\<close>: \<^verbatim>\<open>float(res)\<close> is tried, a \<^verbatim>\<open>ValueError\<close> becomes the module's
  exception, any other exception of the conversion leaves the accessor, and what is
  returned is \<^verbatim>\<open>res\<close>, the string, not the number.
\<close>

definition now_power ::
  "env \<Rightarrow> SmartPlug \<Rightarrow> trace \<Rightarrow> (error + string option) \<times> trace" where
  "now_power env self t =
     (case xml_cmd_get_now_power ''NowPower'' of
        None \<Rightarrow> (Inl DOMException, t)
      | Some xml \<Rightarrow>
          (case post_xml_now_power env self xml t of
             (Inl e, t) \<Rightarrow> (Inl e, t)
           | (Inr res, t) \<Rightarrow>
               (case py_float env res of
                  Inl ValueError \<Rightarrow> (Inl (Exception ''Failed to communicate with SmartPlug''), t)
                | Inl e \<Rightarrow> (Inl e, t)
                | Inr _ \<Rightarrow> (Inr res, t))))"

text \<open>\<^verbatim>\<open>now_energy_day\<close>: the same with the attribute \<^verbatim>\<open>NowEnergy.Day\<close>.\<close>

definition now_energy_day ::
  "env \<Rightarrow> SmartPlug \<Rightarrow> trace \<Rightarrow> (error + string option) \<times> trace" where
  "now_energy_day env self t =
     (case xml_cmd_get_now_power ''NowEnergy.Day'' of
        None \<Rightarrow> (Inl DOMException, t)
      | Some xml \<Rightarrow>
          (case post_xml_now_power env self xml t of
             (Inl e, t) \<Rightarrow> (Inl e, t)
           | (Inr res, t) \<Rightarrow>
               (case py_float env res of
                  Inl ValueError \<Rightarrow> (Inl (Exception ''Failed to communicate with SmartPlug''), t)
                | Inl e \<Rightarrow> (Inl e, t)
                | Inr _ \<Rightarrow> (Inr res, t))))"

subsection \<open>Sequences of accessor calls\<close>

text \<open>
  A caller uses one instance for any number of accessor calls, whether or not one of
  them raised. No accessor assigns to \<^verbatim>\<open>self\<close>, so the instance is the same in every
  call; only the trace grows.
\<close>

datatype call = GetState | SetState pyval | GetNowPower | GetNowEnergyDay

fun perform :: "env \<Rightarrow> SmartPlug \<Rightarrow> call \<Rightarrow> trace \<Rightarrow> trace" where
  "perform env self GetState t = snd (state_get env self t)"
| "perform env self (SetState v) t = snd (state_set env self v t)"
| "perform env self GetNowPower t = snd (now_power env self t)"
| "perform env self GetNowEnergyDay t = snd (now_energy_day env self t)"

fun perform_all :: "env \<Rightarrow> SmartPlug \<Rightarrow> call list \<Rightarrow> trace \<Rightarrow> trace" where
  "perform_all env self [] t = t"
| "perform_all env self (c # cs) t = perform_all env self cs (perform env self c t)"

subsection \<open>Sample plugs\<close>

text \<open>
  Concrete environments on which the theorems below are run. The sample plug answers
  the probe with status 401 and the given headers, and every POST with one fixed
  reply. The sample parser knows the reply documents listed here, each with the
  document \<^verbatim>\<open>minidom\<close> builds for it, and raises on any other text. The sample
  \<^verbatim>\<open>float\<close> accepts plain decimals (\<^verbatim>\<open>7\<close>, \<^verbatim>\<open>12.3\<close>), all of which \<^verbatim>\<open>float\<close> converts.
\<close>

definition sample_documents :: "(string \<times> xnode) list" where
  "sample_documents =
     [(''<CMD>OK</CMD>'',
       DocumentNode [ElementNode ''CMD'' [] [TextNode ''OK'']]),
      (''<CMD><Device.System.Power.State>OFF</Device.System.Power.State></CMD>'',
       DocumentNode [ElementNode ''CMD'' []
         [ElementNode ''Device.System.Power.State'' [] [TextNode ''OFF'']]]),
      (''<CMD><NOW_POWER><Device.System.Power.NowPower>12.3</Device.System.Power.NowPower></NOW_POWER></CMD>'',
       DocumentNode [ElementNode ''CMD'' []
         [ElementNode ''NOW_POWER'' []
           [ElementNode ''Device.System.Power.NowPower'' [] [TextNode ''12.3'']]]]),
      (''<CMD><NOW_POWER><Device.System.Power.NowPower>abc</Device.System.Power.NowPower></NOW_POWER></CMD>'',
       DocumentNode [ElementNode ''CMD'' []
         [ElementNode ''NOW_POWER'' []
           [ElementNode ''Device.System.Power.NowPower'' [] [TextNode ''abc'']]]]),
      (''<CMD><NOW_POWER><Device.System.Power.NowPower/></NOW_POWER></CMD>'',
       DocumentNode [ElementNode ''CMD'' []
         [ElementNode ''NOW_POWER'' []
           [ElementNode ''Device.System.Power.NowPower'' [] []]]])]"

definition sample_parseString :: "string \<Rightarrow> error + xnode" where
  "sample_parseString s =
     (case map_of sample_documents s of
        None \<Rightarrow> Inl (ExpatError ''syntax error'')
      | Some d \<Rightarrow> Inr d)"

definition decimal_digits :: "string \<Rightarrow> bool" where
  "decimal_digits s = (s \<noteq> [] \<and> list_all (\<lambda>c. c \<in> set ''0123456789'') s)"

definition sample_float_accepts :: "string \<Rightarrow> bool" where
  "sample_float_accepts s =
     (decimal_digits (takeWhile (\<lambda>c. c \<noteq> CHR ''.'') s)
      \<and> (case dropWhile (\<lambda>c. c \<noteq> CHR ''.'') s of
           [] \<Rightarrow> True
         | c # fraction \<Rightarrow> decimal_digits fraction))"

definition sample_network :: "(string \<rightharpoonup> string) \<Rightarrow> response \<Rightarrow> trace \<Rightarrow> error + response" where
  "sample_network probe_headers reply t =
     (case rev t of
        [] \<Rightarrow> Inl (RequestException ''nothing sent'')
      | HEAD u # _ \<Rightarrow>
          Inr \<lparr>status_code = 401, headers = probe_headers, response_text = ''''\<rparr>
      | POST u a files # _ \<Rightarrow> Inr reply)"

definition sample_env :: "(string \<rightharpoonup> string) \<Rightarrow> int \<Rightarrow> string \<Rightarrow> env" where
  "sample_env probe_headers status body =
     \<lparr>network = sample_network probe_headers
                  \<lparr>status_code = status, headers = Map.empty, response_text = body\<rparr>,
      parseString = sample_parseString,
      float_accepts = sample_float_accepts\<rparr>"

definition sample_plug :: SmartPlug where
  "sample_plug = \<lparr>url = ''http://172.16.100.75:10000/smartplug.cgi'', auth = Tuple ''admin'' ''1234''\<rparr>"

section \<open>Properties\<close>

subsection \<open>What the builders serialise\<close>

lemmas dom_defs = createDocument_def createElement_def createTextNode_def appendChild_def
  setAttribute_def documentElement_def lookup_def alloc_def detach_def toxml_def

lemma xml_cmd_setget_state_shape:
  \<open>xml_cmd_setget_state cmdId cmdStr =
     Some (''<?xml version="1.0" ?><SMARTPLUG id="edimax"><CMD id="'' @ write_data cmdId
           @ ''"><Device.System.Power.State>'' @ write_data cmdStr
           @ ''</Device.System.Power.State></CMD></SMARTPLUG>'')\<close>
  by (simp add: xml_cmd_setget_state_def dom_defs write_attr_def write_data_def numeral_eq_Suc)

lemma xml_cmd_get_now_power_shape:
  \<open>xml_cmd_get_now_power attribute =
     Some (''<?xml version="1.0" ?><SMARTPLUG id="edimax"><CMD id="get"><NOW_POWER><Device.System.Power.''
           @ attribute @ ''></Device.System.Power.'' @ attribute
           @ ''></NOW_POWER></CMD></SMARTPLUG>'')\<close>
  by (simp add: xml_cmd_get_now_power_def dom_defs write_attr_def write_data_def numeral_eq_Suc)

text \<open>
  C4 (counterexample). The claim gives the get-state command as
  \<^verbatim>\<open><SMARTPLUG id="edimax"><CMD id="get"><Device.System.Power.State/></CMD></SMARTPLUG>\<close>.
  The builder does not return that string: \<^verbatim>\<open>doc.toxml()\<close> starts with the XML
  declaration, and the state element holds an empty text node, so it is written with an
  opening and a closing tag.
\<close>

theorem C4_get_state_bytes_counterexample:
  \<open>xml_cmd_setget_state ''get'' '''' \<noteq>
     Some ''<SMARTPLUG id="edimax"><CMD id="get"><Device.System.Power.State/></CMD></SMARTPLUG>''\<close>
  by (simp add: xml_cmd_setget_state_shape write_data_def)

text \<open>
  C4 (amended). Each builder is a function of its arguments alone and always returns a
  string. The four commands the accessors build serialise byte for byte as: the XML
  declaration \<^verbatim>\<open><?xml version="1.0" ?>\<close>, then the \<^verbatim>\<open>SMARTPLUG\<close> root with
  \<^verbatim>\<open>id="edimax"\<close>, one \<^verbatim>\<open>CMD\<close> with \<^verbatim>\<open>id="get"\<close> or \<^verbatim>\<open>id="setup"\<close>, and the leaf element
  written as an opening and a closing tag around its text (empty for the queries,
  \<^verbatim>\<open>ON\<close> or \<^verbatim>\<open>OFF\<close> for set-state), never as a self-closing tag.
\<close>

theorem C4_command_bytes:
  \<open>xml_cmd_setget_state ''get'' '''' =
     Some ''<?xml version="1.0" ?><SMARTPLUG id="edimax"><CMD id="get"><Device.System.Power.State></Device.System.Power.State></CMD></SMARTPLUG>''
   \<and> xml_cmd_setget_state ''setup'' ''ON'' =
     Some ''<?xml version="1.0" ?><SMARTPLUG id="edimax"><CMD id="setup"><Device.System.Power.State>ON</Device.System.Power.State></CMD></SMARTPLUG>''
   \<and> xml_cmd_setget_state ''setup'' ''OFF'' =
     Some ''<?xml version="1.0" ?><SMARTPLUG id="edimax"><CMD id="setup"><Device.System.Power.State>OFF</Device.System.Power.State></CMD></SMARTPLUG>''
   \<and> xml_cmd_get_now_power ''NowPower'' =
     Some ''<?xml version="1.0" ?><SMARTPLUG id="edimax"><CMD id="get"><NOW_POWER><Device.System.Power.NowPower></Device.System.Power.NowPower></NOW_POWER></CMD></SMARTPLUG>''
   \<and> xml_cmd_get_now_power ''NowEnergy.Day'' =
     Some ''<?xml version="1.0" ?><SMARTPLUG id="edimax"><CMD id="get"><NOW_POWER><Device.System.Power.NowEnergy.Day></Device.System.Power.NowEnergy.Day></NOW_POWER></CMD></SMARTPLUG>''\<close>
  by (simp add: xml_cmd_setget_state_shape xml_cmd_get_now_power_shape write_data_def)

subsection \<open>Unfolding the helpers and the accessors\<close>

lemmas sample_defs = sample_env_def sample_network_def sample_parseString_def
  sample_documents_def sample_float_accepts_def decimal_digits_def sample_plug_def

lemmas reply_defs = requests_post_def requests_head_def Let_def post_xml_def
  post_xml_now_power_def post_xml_value_def post_xml_now_power_value_def item0_def
  nodeValue_of_def firstChild_of_def firstChild_def py_float_def

text \<open>Each helper sends exactly one POST, to the instance's URL and with its credentials.\<close>

lemma post_xml_trace:
  "snd (post_xml env self xml t) = t @ [POST (url self) (auth self) [(''file'', xml)]]"
  by (simp add: post_xml_def requests_post_def Let_def split: sum.splits option.splits)

lemma post_xml_now_power_trace:
  "snd (post_xml_now_power env self xml t) = t @ [POST (url self) (auth self) [(''file'', xml)]]"
  by (simp add: post_xml_now_power_def requests_post_def Let_def split: sum.splits option.splits)

text \<open>A reply whose status is not 200 is answered with \<^verbatim>\<open>None\<close>; the parser is not called.\<close>

lemma post_xml_not_200:
  assumes "network env (t @ [POST (url self) (auth self) [(''file'', xml)]]) = Inr r"
    and "status_code r \<noteq> 200"
  shows "post_xml env self xml t = (Inr None, t @ [POST (url self) (auth self) [(''file'', xml)]])"
  using assms by (simp add: post_xml_def requests_post_def Let_def)

lemma post_xml_now_power_not_200:
  assumes "network env (t @ [POST (url self) (auth self) [(''file'', xml)]]) = Inr r"
    and "status_code r \<noteq> 200"
  shows "post_xml_now_power env self xml t
           = (Inr None, t @ [POST (url self) (auth self) [(''file'', xml)]])"
  using assms by (simp add: post_xml_now_power_def requests_post_def Let_def)

text \<open>A reply with status 200 that parses: the value read from the document, if any.\<close>

lemma post_xml_200:
  assumes "network env (t @ [POST (url self) (auth self) [(''file'', xml)]]) = Inr r"
    and "status_code r = 200"
    and "parseString env (response_text r) = Inr d"
  shows "fst (post_xml env self xml t)
           = (case post_xml_value d of Inr val \<Rightarrow> Inr val | Inl e \<Rightarrow> Inr None)"
  using assms by (simp add: post_xml_def requests_post_def Let_def split: sum.splits)

lemma post_xml_now_power_200:
  assumes "network env (t @ [POST (url self) (auth self) [(''file'', xml)]]) = Inr r"
    and "status_code r = 200"
    and "parseString env (response_text r) = Inr d"
  shows "fst (post_xml_now_power env self xml t)
           = (case post_xml_now_power_value d of Inr val \<Rightarrow> Inr val | Inl e \<Rightarrow> Inr None)"
  using assms by (simp add: post_xml_now_power_def requests_post_def Let_def split: sum.splits)

text \<open>The accessors with the command they send written out.\<close>

lemma state_get_unfold:
  \<open>state_get env self t =
     (case post_xml env self ''<?xml version="1.0" ?><SMARTPLUG id="edimax"><CMD id="get"><Device.System.Power.State></Device.System.Power.State></CMD></SMARTPLUG>'' t of
        (Inl e, t') \<Rightarrow> (Inl e, t')
      | (Inr res, t') \<Rightarrow>
          if res \<noteq> Some ''ON'' \<and> res \<noteq> Some ''OFF''
          then (Inl (Exception ''Failed to communicate with SmartPlug''), t')
          else (Inr res, t'))\<close>
  by (simp add: state_get_def xml_cmd_setget_state_shape write_data_def)

lemma state_set_unfold:
  \<open>state_set env self v t =
     (case post_xml env self
             (if v = PyStr ''ON'' \<or> v = PyStr ''on''
              then ''<?xml version="1.0" ?><SMARTPLUG id="edimax"><CMD id="setup"><Device.System.Power.State>ON</Device.System.Power.State></CMD></SMARTPLUG>''
              else ''<?xml version="1.0" ?><SMARTPLUG id="edimax"><CMD id="setup"><Device.System.Power.State>OFF</Device.System.Power.State></CMD></SMARTPLUG>'') t of
        (Inl e, t') \<Rightarrow> (Inl e, t')
      | (Inr res, t') \<Rightarrow>
          if res \<noteq> Some ''OK''
          then (Inl (Exception ''Failed to communicate with SmartPlug''), t')
          else (Inr (), t'))\<close>
  by (simp add: state_set_def xml_cmd_setget_state_shape write_data_def)

lemma now_power_unfold:
  \<open>now_power env self t =
     (case post_xml_now_power env self ''<?xml version="1.0" ?><SMARTPLUG id="edimax"><CMD id="get"><NOW_POWER><Device.System.Power.NowPower></Device.System.Power.NowPower></NOW_POWER></CMD></SMARTPLUG>'' t of
        (Inl e, t') \<Rightarrow> (Inl e, t')
      | (Inr res, t') \<Rightarrow>
          (case py_float env res of
             Inl ValueError \<Rightarrow> (Inl (Exception ''Failed to communicate with SmartPlug''), t')
           | Inl e \<Rightarrow> (Inl e, t')
           | Inr _ \<Rightarrow> (Inr res, t')))\<close>
  by (simp add: now_power_def xml_cmd_get_now_power_shape)

lemma now_energy_day_unfold:
  \<open>now_energy_day env self t =
     (case post_xml_now_power env self ''<?xml version="1.0" ?><SMARTPLUG id="edimax"><CMD id="get"><NOW_POWER><Device.System.Power.NowEnergy.Day></Device.System.Power.NowEnergy.Day></NOW_POWER></CMD></SMARTPLUG>'' t of
        (Inl e, t') \<Rightarrow> (Inl e, t')
      | (Inr res, t') \<Rightarrow>
          (case py_float env res of
             Inl ValueError \<Rightarrow> (Inl (Exception ''Failed to communicate with SmartPlug''), t')
           | Inl e \<Rightarrow> (Inl e, t')
           | Inr _ \<Rightarrow> (Inr res, t')))\<close>
  by (simp add: now_energy_day_def xml_cmd_get_now_power_shape)

subsection \<open>What each accessor sends\<close>

lemma state_get_trace:
  "\<exists>files. snd (state_get env self t) = t @ [POST (url self) (auth self) files]"
proof -
  have "snd (state_get env self t) = snd (post_xml env self xml t)"
    if "state_get env self t =
          (case post_xml env self xml t of
             (Inl e, t') \<Rightarrow> (Inl e, t')
           | (Inr res, t') \<Rightarrow>
               if res \<noteq> Some ''ON'' \<and> res \<noteq> Some ''OFF''
               then (Inl (Exception ''Failed to communicate with SmartPlug''), t')
               else (Inr res, t'))" for xml
    using that by (cases "post_xml env self xml t") (simp split: sum.splits)
  from this [OF state_get_unfold] show ?thesis
    by (simp add: post_xml_trace)
qed

lemma state_set_trace:
  \<open>snd (state_set env self v t) =
     t @ [POST (url self) (auth self)
            [(''file'',
              if v = PyStr ''ON'' \<or> v = PyStr ''on''
              then ''<?xml version="1.0" ?><SMARTPLUG id="edimax"><CMD id="setup"><Device.System.Power.State>ON</Device.System.Power.State></CMD></SMARTPLUG>''
              else ''<?xml version="1.0" ?><SMARTPLUG id="edimax"><CMD id="setup"><Device.System.Power.State>OFF</Device.System.Power.State></CMD></SMARTPLUG>'')]]\<close>
proof -
  have "snd (case post_xml env self xml t of
               (Inl e, t') \<Rightarrow> (Inl e, t')
             | (Inr res, t') \<Rightarrow>
                 if res \<noteq> Some ''OK''
                 then (Inl (Exception ''Failed to communicate with SmartPlug''), t')
                 else (Inr (), t')) = snd (post_xml env self xml t)" for xml
    by (cases "post_xml env self xml t") (simp split: sum.splits)
  then show ?thesis
    by (simp add: state_set_unfold post_xml_trace)
qed

lemma power_result_trace:
  "snd (case post_xml_now_power env self xml t of
          (Inl e, t') \<Rightarrow> (Inl e, t')
        | (Inr res, t') \<Rightarrow>
            (case py_float env res of
               Inl ValueError \<Rightarrow> (Inl (Exception ''Failed to communicate with SmartPlug''), t')
             | Inl e \<Rightarrow> (Inl e, t')
             | Inr _ \<Rightarrow> (Inr res, t')))
     = t @ [POST (url self) (auth self) [(''file'', xml)]]"
proof (cases "post_xml_now_power env self xml t")
  case (Pair res t')
  with post_xml_now_power_trace [of env self xml t]
  have "t' = t @ [POST (url self) (auth self) [(''file'', xml)]]" by simp
  with Pair show ?thesis
    by (simp split: sum.splits error.splits)
qed

lemma now_power_trace:
  "\<exists>files. snd (now_power env self t) = t @ [POST (url self) (auth self) files]"
  by (simp add: now_power_unfold power_result_trace)

lemma now_energy_day_trace:
  "\<exists>files. snd (now_energy_day env self t) = t @ [POST (url self) (auth self) files]"
  by (simp add: now_energy_day_unfold power_result_trace)

lemma perform_trace:
  "\<exists>files. perform env self c t = t @ [POST (url self) (auth self) files]"
proof (cases c)
  case GetState
  then show ?thesis using state_get_trace [of env self t] by simp
next
  case (SetState v)
  then show ?thesis by (simp add: state_set_trace)
next
  case GetNowPower
  then show ?thesis using now_power_trace [of env self t] by simp
next
  case GetNowEnergyDay
  then show ?thesis using now_energy_day_trace [of env self t] by simp
qed

lemma perform_all_trace:
  "\<exists>posts. perform_all env self cs t = t @ posts
     \<and> length posts = length cs
     \<and> list_all (\<lambda>q. \<exists>files. q = POST (url self) (auth self) files) posts"
proof (induction cs arbitrary: t)
  case Nil
  then show ?case by simp
next
  case (Cons c cs)
  obtain files where step: "perform env self c t = t @ [POST (url self) (auth self) files]"
    using perform_trace by blast
  obtain posts where rest:
      "perform_all env self cs (perform env self c t) = perform env self c t @ posts"
      "length posts = length cs"
      "list_all (\<lambda>q. \<exists>files. q = POST (url self) (auth self) files) posts"
    using Cons.IH by blast
  have "perform_all env self (c # cs) t = t @ (POST (url self) (auth self) files # posts)"
    using step rest(1) by simp
  moreover have "length (POST (url self) (auth self) files # posts) = length (c # cs)"
    using rest(2) by simp
  moreover have "list_all (\<lambda>q. \<exists>files. q = POST (url self) (auth self) files)
                   (POST (url self) (auth self) files # posts)"
    using rest(3) by simp
  ultimately show ?case by blast
qed

subsection \<open>The setter of \<^verbatim>\<open>state\<close>\<close>

text \<open>
  C1 (counterexample). The claim has every letter case of ON normalised to \<^verbatim>\<open>ON\<close>. The
  setter compares its argument with the two strings \<^verbatim>\<open>"ON"\<close> and \<^verbatim>\<open>"on"\<close> only: for
  \<^verbatim>\<open>"On"\<close> the one request it sends carries the leaf text \<^verbatim>\<open>OFF\<close>, and when the plug
  answers \<^verbatim>\<open>OK\<close> the call returns normally.
\<close>

theorem C1_mixed_case_On_counterexample:
  \<open>snd (state_set (sample_env Map.empty 200 ''<CMD>OK</CMD>'') sample_plug (PyStr ''On'') []) =
     [POST ''http://172.16.100.75:10000/smartplug.cgi'' (Tuple ''admin'' ''1234'')
        [(''file'', ''<?xml version="1.0" ?><SMARTPLUG id="edimax"><CMD id="setup"><Device.System.Power.State>OFF</Device.System.Power.State></CMD></SMARTPLUG>'')]]
   \<and> fst (state_set (sample_env Map.empty 200 ''<CMD>OK</CMD>'') sample_plug (PyStr ''On'') [])
     = Inr ()\<close>
  by (simp add: state_set_unfold reply_defs sample_defs)

text \<open>
  C1 (amended). For the argument \<^verbatim>\<open>"ON"\<close> or \<^verbatim>\<open>"on"\<close>, and for the argument off in any
  letter case (\<^verbatim>\<open>"OFF"\<close>, \<^verbatim>\<open>"Off"\<close>, \<^verbatim>\<open>"off"\<close> and the five other casings), the
  setter sends one setup command whose leaf text is the uppercase token: \<^verbatim>\<open>ON\<close> for
  \<^verbatim>\<open>"ON"\<close> and \<^verbatim>\<open>"on"\<close>, \<^verbatim>\<open>OFF\<close> for every casing of off. The calls with \<^verbatim>\<open>"on"\<close>
  and with \<^verbatim>\<open>"ON"\<close> send the same bytes and have the same outcome.
\<close>

theorem C1_ON_on_and_every_case_of_off:
  \<open>list_all
     (\<lambda>s. snd (state_set env self (PyStr s) t) =
        t @ [POST (url self) (auth self)
               [(''file'', ''<?xml version="1.0" ?><SMARTPLUG id="edimax"><CMD id="setup"><Device.System.Power.State>ON</Device.System.Power.State></CMD></SMARTPLUG>'')]])
     [''ON'', ''on'']
   \<and> list_all
     (\<lambda>s. snd (state_set env self (PyStr s) t) =
        t @ [POST (url self) (auth self)
               [(''file'', ''<?xml version="1.0" ?><SMARTPLUG id="edimax"><CMD id="setup"><Device.System.Power.State>OFF</Device.System.Power.State></CMD></SMARTPLUG>'')]])
     [''OFF'', ''OFf'', ''OfF'', ''Off'', ''oFF'', ''oFf'', ''ofF'', ''off'']
   \<and> state_set env self (PyStr ''on'') t = state_set env self (PyStr ''ON'') t\<close>
  by (simp add: state_set_trace) (simp add: state_set_unfold)

text \<open>
  C9. Whatever the argument of the setter is, a string or not, the call sends one POST:
  nothing is rejected before the request. When the argument is neither \<^verbatim>\<open>"ON"\<close> nor
  \<^verbatim>\<open>"on"\<close>, that POST is the setup command with leaf text \<^verbatim>\<open>OFF\<close>, and the whole call
  behaves as the call with \<^verbatim>\<open>"OFF"\<close> does.
\<close>

theorem C9_other_values_send_OFF:
  \<open>(\<exists>xml. snd (state_set env self v t) = t @ [POST (url self) (auth self) [(''file'', xml)]])
   \<and> (v \<noteq> PyStr ''ON'' \<and> v \<noteq> PyStr ''on'' \<longrightarrow>
        snd (state_set env self v t) =
          t @ [POST (url self) (auth self)
                 [(''file'', ''<?xml version="1.0" ?><SMARTPLUG id="edimax"><CMD id="setup"><Device.System.Power.State>OFF</Device.System.Power.State></CMD></SMARTPLUG>'')]]
        \<and> state_set env self v t = state_set env self (PyStr ''OFF'') t)\<close>
  by (simp add: state_set_trace) (simp add: state_set_unfold)

text \<open>
  C9 (witness): the integer \<^verbatim>\<open>1\<close> and the string \<^verbatim>\<open>"banana"\<close> as arguments, on the
  sample plug.
\<close>

theorem C9_other_values_send_OFF_witness:
  \<open>snd (state_set (sample_env Map.empty 200 ''<CMD>OK</CMD>'') sample_plug (PyInt 1) []) =
     [POST (url sample_plug) (auth sample_plug)
        [(''file'', ''<?xml version="1.0" ?><SMARTPLUG id="edimax"><CMD id="setup"><Device.System.Power.State>OFF</Device.System.Power.State></CMD></SMARTPLUG>'')]]
   \<and> state_set (sample_env Map.empty 200 ''<CMD>OK</CMD>'') sample_plug (PyStr ''banana'') []
     = state_set (sample_env Map.empty 200 ''<CMD>OK</CMD>'') sample_plug (PyStr ''OFF'') []\<close>
proof -
  have n1: "PyInt 1 \<noteq> PyStr ''ON'' \<and> PyInt 1 \<noteq> PyStr ''on''"
    and n2: "PyStr ''banana'' \<noteq> PyStr ''ON'' \<and> PyStr ''banana'' \<noteq> PyStr ''on''"
    by simp_all
  from C9_other_values_send_OFF
         [of "sample_env Map.empty 200 ''<CMD>OK</CMD>''" sample_plug "PyInt 1" "[]",
          THEN conjunct2, THEN mp, OF n1, THEN conjunct1]
       C9_other_values_send_OFF
         [of "sample_env Map.empty 200 ''<CMD>OK</CMD>''" sample_plug "PyStr ''banana''" "[]",
          THEN conjunct2, THEN mp, OF n2, THEN conjunct2]
  show ?thesis by simp
qed

subsection \<open>The getter of \<^verbatim>\<open>state\<close>\<close>

text \<open>
  C3. The getter returns a value exactly when \<^verbatim>\<open>_post_xml\<close>, called with the get-state
  command, returns the string \<^verbatim>\<open>ON\<close> or the string \<^verbatim>\<open>OFF\<close>, and then it returns that
  string. For every other value \<^verbatim>\<open>_post_xml\<close> returns, \<^verbatim>\<open>None\<close> included, the getter
  raises \<^verbatim>\<open>Exception("Failed to communicate with SmartPlug")\<close>; an exception that
  leaves \<^verbatim>\<open>_post_xml\<close> leaves the getter too.
\<close>

theorem C3_state_get_returns_iff:
  \<open>(fst (state_get env self t) = Inr v) =
     (fst (post_xml env self ''<?xml version="1.0" ?><SMARTPLUG id="edimax"><CMD id="get"><Device.System.Power.State></Device.System.Power.State></CMD></SMARTPLUG>'' t) = Inr v
      \<and> (v = Some ''ON'' \<or> v = Some ''OFF''))
   \<and> (\<forall>r. fst (post_xml env self ''<?xml version="1.0" ?><SMARTPLUG id="edimax"><CMD id="get"><Device.System.Power.State></Device.System.Power.State></CMD></SMARTPLUG>'' t) = Inr r
          \<and> r \<noteq> Some ''ON'' \<and> r \<noteq> Some ''OFF''
        \<longrightarrow> fst (state_get env self t) = Inl (Exception ''Failed to communicate with SmartPlug''))
   \<and> (\<forall>e. fst (post_xml env self ''<?xml version="1.0" ?><SMARTPLUG id="edimax"><CMD id="get"><Device.System.Power.State></Device.System.Power.State></CMD></SMARTPLUG>'' t) = Inl e
        \<longrightarrow> fst (state_get env self t) = Inl e)\<close>
proof -
  obtain res t' where p: \<open>post_xml env self ''<?xml version="1.0" ?><SMARTPLUG id="edimax"><CMD id="get"><Device.System.Power.State></Device.System.Power.State></CMD></SMARTPLUG>'' t = (res, t')\<close>
    by (cases \<open>post_xml env self ''<?xml version="1.0" ?><SMARTPLUG id="edimax"><CMD id="get"><Device.System.Power.State></Device.System.Power.State></CMD></SMARTPLUG>'' t\<close>)
  show ?thesis
  proof (cases res)
    case (Inl e)
    with p show ?thesis by (simp add: state_get_unfold)
  next
    case (Inr r)
    with p show ?thesis by (auto simp add: state_get_unfold)
  qed
qed

text \<open>
  C3 (witness): a plug that answers the get-state command with \<^verbatim>\<open><CMD>OK</CMD>\<close>. The
  parsed value is \<^verbatim>\<open>OK\<close>, neither \<^verbatim>\<open>ON\<close> nor \<^verbatim>\<open>OFF\<close>, and the getter raises; a plug
  that gives no value (status 500) makes it raise as well.
\<close>

theorem C3_state_get_returns_iff_witness:
  \<open>fst (post_xml (sample_env Map.empty 200 ''<CMD>OK</CMD>'') sample_plug ''<?xml version="1.0" ?><SMARTPLUG id="edimax"><CMD id="get"><Device.System.Power.State></Device.System.Power.State></CMD></SMARTPLUG>'' []) = Inr (Some ''OK'')
   \<and> fst (state_get (sample_env Map.empty 200 ''<CMD>OK</CMD>'') sample_plug [])
       = Inl (Exception ''Failed to communicate with SmartPlug'')
   \<and> fst (post_xml (sample_env Map.empty 500 '''') sample_plug ''<?xml version="1.0" ?><SMARTPLUG id="edimax"><CMD id="get"><Device.System.Power.State></Device.System.Power.State></CMD></SMARTPLUG>'' []) = Inr None
   \<and> fst (state_get (sample_env Map.empty 500 '''') sample_plug [])
       = Inl (Exception ''Failed to communicate with SmartPlug'')\<close>
proof -
  have p: \<open>fst (post_xml (sample_env Map.empty 200 ''<CMD>OK</CMD>'') sample_plug ''<?xml version="1.0" ?><SMARTPLUG id="edimax"><CMD id="get"><Device.System.Power.State></Device.System.Power.State></CMD></SMARTPLUG>'' []) = Inr (Some ''OK'')\<close>
    by (simp add: reply_defs sample_defs)
  have q: \<open>fst (post_xml (sample_env Map.empty 500 '''') sample_plug ''<?xml version="1.0" ?><SMARTPLUG id="edimax"><CMD id="get"><Device.System.Power.State></Device.System.Power.State></CMD></SMARTPLUG>'' []) = Inr None\<close>
    by (simp add: reply_defs sample_defs)
  have d: "Some ''OK'' \<noteq> Some ''ON''" "Some ''OK'' \<noteq> Some ''OFF''"
    "None \<noteq> Some ''ON''" "None \<noteq> Some ''OFF''" by simp_all
  from p q d
    C3_state_get_returns_iff [of "sample_env Map.empty 200 ''<CMD>OK</CMD>''" sample_plug "[]"]
    C3_state_get_returns_iff [of "sample_env Map.empty 500 ''''" sample_plug "[]"]
  show ?thesis by blast
qed

subsection \<open>Replies whose status is not 200\<close>

text \<open>
  C5 (counterexample). The claim has every accessor fail with an error that carries the
  status code. On the sample plug the getter raises the same exception, with the same
  message and no status in it, for status 500 and for status 404, and the very same
  exception again for a reply with status 200 whose value is not a state; \<^verbatim>\<open>now_power\<close>
  raises \<^verbatim>\<open>TypeError\<close> for status 500.
\<close>

theorem C5_status_not_carried_counterexample:
  "fst (state_get (sample_env Map.empty 500 '''') sample_plug [])
     = Inl (Exception ''Failed to communicate with SmartPlug'')
   \<and> fst (state_get (sample_env Map.empty 404 '''') sample_plug [])
     = Inl (Exception ''Failed to communicate with SmartPlug'')
   \<and> fst (state_get (sample_env Map.empty 200 ''<CMD>OK</CMD>'') sample_plug [])
     = Inl (Exception ''Failed to communicate with SmartPlug'')
   \<and> fst (now_power (sample_env Map.empty 500 '''') sample_plug []) = Inl TypeError"
  by (simp add: state_get_unfold now_power_unfold reply_defs sample_defs)

lemma post_xml_not_200_any_parser:
  assumes "network env (t @ [POST (url self) (auth self) [(''file'', xml)]]) = Inr r
         \<and> status_code r \<noteq> 200"
  shows "post_xml env self xml t = (Inr None, t @ [POST (url self) (auth self) [(''file'', xml)]])
         \<and> post_xml (env\<lparr>parseString := p\<rparr>) self xml t
             = (Inr None, t @ [POST (url self) (auth self) [(''file'', xml)]])"
  using assms post_xml_not_200 [of env t self xml r]
    post_xml_not_200 [of "env\<lparr>parseString := p\<rparr>" t self xml r] by simp

lemma post_xml_now_power_not_200_any_parser:
  assumes "network env (t @ [POST (url self) (auth self) [(''file'', xml)]]) = Inr r
         \<and> status_code r \<noteq> 200"
  shows "post_xml_now_power env self xml t
             = (Inr None, t @ [POST (url self) (auth self) [(''file'', xml)]])
         \<and> post_xml_now_power (env\<lparr>parseString := p\<rparr>) self xml t
             = (Inr None, t @ [POST (url self) (auth self) [(''file'', xml)]])"
  using assms post_xml_now_power_not_200 [of env t self xml r]
    post_xml_now_power_not_200 [of "env\<lparr>parseString := p\<rparr>" t self xml r] by simp

lemma state_get_not_200:
  assumes \<open>network env (t @ [POST (url self) (auth self) [(''file'', ''<?xml version="1.0" ?><SMARTPLUG id="edimax"><CMD id="get"><Device.System.Power.State></Device.System.Power.State></CMD></SMARTPLUG>'')]]) = Inr r
         \<and> status_code r \<noteq> 200\<close>
  shows "fst (state_get env self t) = Inl (Exception ''Failed to communicate with SmartPlug'')
         \<and> state_get (env\<lparr>parseString := p\<rparr>) self t = state_get env self t"
  using post_xml_not_200_any_parser [OF assms, of p] by (simp add: state_get_unfold)

lemma state_set_not_200:
  assumes \<open>network env (t @ [POST (url self) (auth self)
                [(''file'', (if v = PyStr ''ON'' \<or> v = PyStr ''on''
                   then ''<?xml version="1.0" ?><SMARTPLUG id="edimax"><CMD id="setup"><Device.System.Power.State>ON</Device.System.Power.State></CMD></SMARTPLUG>''
                   else ''<?xml version="1.0" ?><SMARTPLUG id="edimax"><CMD id="setup"><Device.System.Power.State>OFF</Device.System.Power.State></CMD></SMARTPLUG>''))]]) = Inr r
         \<and> status_code r \<noteq> 200\<close>
  shows "fst (state_set env self v t) = Inl (Exception ''Failed to communicate with SmartPlug'')
         \<and> state_set (env\<lparr>parseString := p\<rparr>) self v t = state_set env self v t"
  using post_xml_not_200_any_parser [OF assms, of p] by (simp add: state_set_unfold)

lemma now_power_not_200:
  assumes \<open>network env (t @ [POST (url self) (auth self) [(''file'', ''<?xml version="1.0" ?><SMARTPLUG id="edimax"><CMD id="get"><NOW_POWER><Device.System.Power.NowPower></Device.System.Power.NowPower></NOW_POWER></CMD></SMARTPLUG>'')]]) = Inr r
         \<and> status_code r \<noteq> 200\<close>
  shows "(\<exists>e. fst (now_power env self t) = Inl e)
         \<and> now_power (env\<lparr>parseString := p\<rparr>) self t = now_power env self t"
  using post_xml_now_power_not_200_any_parser [OF assms, of p]
  by (simp add: now_power_unfold py_float_def)

lemma now_energy_day_not_200:
  assumes \<open>network env (t @ [POST (url self) (auth self) [(''file'', ''<?xml version="1.0" ?><SMARTPLUG id="edimax"><CMD id="get"><NOW_POWER><Device.System.Power.NowEnergy.Day></Device.System.Power.NowEnergy.Day></NOW_POWER></CMD></SMARTPLUG>'')]]) = Inr r
         \<and> status_code r \<noteq> 200\<close>
  shows "(\<exists>e. fst (now_energy_day env self t) = Inl e)
         \<and> now_energy_day (env\<lparr>parseString := p\<rparr>) self t = now_energy_day env self t"
  using post_xml_now_power_not_200_any_parser [OF assms, of p]
  by (simp add: now_energy_day_unfold py_float_def)

text \<open>
  C5 (amended). When the reply to the POST an accessor sends has a status code other
  than 200 (any other code, 2xx or not), that accessor fails and the body of the reply
  is never parsed: the outcome of the accessor is the same whatever the parser is. The
  failure carries no status code: the getter and the setter of \<^verbatim>\<open>state\<close> raise
  \<^verbatim>\<open>Exception("Failed to communicate with SmartPlug")\<close>, and the two power accessors
  raise as well. Each accessor is taken with the reply to its own command; nothing is
  assumed about the replies to other requests.
\<close>

theorem C5_status_not_200:
  \<open>(\<forall>r. network env (t @ [POST (url self) (auth self) [(''file'', ''<?xml version="1.0" ?><SMARTPLUG id="edimax"><CMD id="get"><Device.System.Power.State></Device.System.Power.State></CMD></SMARTPLUG>'')]]) = Inr r
         \<and> status_code r \<noteq> 200
       \<longrightarrow> fst (state_get env self t) = Inl (Exception ''Failed to communicate with SmartPlug'')
         \<and> state_get (env\<lparr>parseString := p\<rparr>) self t = state_get env self t)
   \<and> (\<forall>r. network env (t @ [POST (url self) (auth self)
                [(''file'', if v = PyStr ''ON'' \<or> v = PyStr ''on''
                   then ''<?xml version="1.0" ?><SMARTPLUG id="edimax"><CMD id="setup"><Device.System.Power.State>ON</Device.System.Power.State></CMD></SMARTPLUG>''
                   else ''<?xml version="1.0" ?><SMARTPLUG id="edimax"><CMD id="setup"><Device.System.Power.State>OFF</Device.System.Power.State></CMD></SMARTPLUG>'')]]) = Inr r
         \<and> status_code r \<noteq> 200
       \<longrightarrow> fst (state_set env self v t) = Inl (Exception ''Failed to communicate with SmartPlug'')
         \<and> state_set (env\<lparr>parseString := p\<rparr>) self v t = state_set env self v t)
   \<and> (\<forall>r. network env (t @ [POST (url self) (auth self) [(''file'', ''<?xml version="1.0" ?><SMARTPLUG id="edimax"><CMD id="get"><NOW_POWER><Device.System.Power.NowPower></Device.System.Power.NowPower></NOW_POWER></CMD></SMARTPLUG>'')]]) = Inr r
         \<and> status_code r \<noteq> 200
       \<longrightarrow> (\<exists>e. fst (now_power env self t) = Inl e)
         \<and> now_power (env\<lparr>parseString := p\<rparr>) self t = now_power env self t)
   \<and> (\<forall>r. network env (t @ [POST (url self) (auth self) [(''file'', ''<?xml version="1.0" ?><SMARTPLUG id="edimax"><CMD id="get"><NOW_POWER><Device.System.Power.NowEnergy.Day></Device.System.Power.NowEnergy.Day></NOW_POWER></CMD></SMARTPLUG>'')]]) = Inr r
         \<and> status_code r \<noteq> 200
       \<longrightarrow> (\<exists>e. fst (now_energy_day env self t) = Inl e)
         \<and> now_energy_day (env\<lparr>parseString := p\<rparr>) self t = now_energy_day env self t)\<close>
  by (intro conjI allI impI)
    (erule state_get_not_200 [THEN conjunct1] state_get_not_200 [THEN conjunct2]
       state_set_not_200 [THEN conjunct1] state_set_not_200 [THEN conjunct2]
       now_power_not_200 [THEN conjunct1] now_power_not_200 [THEN conjunct2]
       now_energy_day_not_200 [THEN conjunct1] now_energy_day_not_200 [THEN conjunct2])+

text \<open>
  C5 (witness): a plug that answers every POST with status 204, a 2xx code, and a body
  that would have been a success.
\<close>

theorem C5_status_not_200_witness:
  "fst (state_get (sample_env Map.empty 204 ''<CMD>OK</CMD>'') sample_plug [])
     = Inl (Exception ''Failed to communicate with SmartPlug'')
   \<and> fst (state_set (sample_env Map.empty 204 ''<CMD>OK</CMD>'') sample_plug (PyStr ''ON'') [])
     = Inl (Exception ''Failed to communicate with SmartPlug'')
   \<and> (\<exists>e. fst (now_power (sample_env Map.empty 204 ''<CMD>OK</CMD>'') sample_plug []) = Inl e)
   \<and> (\<exists>e. fst (now_energy_day (sample_env Map.empty 204 ''<CMD>OK</CMD>'') sample_plug []) = Inl e)"
proof -
  have n: "network (sample_env Map.empty 204 ''<CMD>OK</CMD>'')
               ([] @ [POST (url sample_plug) (auth sample_plug) [(''file'', xml)]])
             = Inr \<lparr>status_code = 204, headers = Map.empty, response_text = ''<CMD>OK</CMD>''\<rparr>
            \<and> status_code \<lparr>status_code = 204, headers = Map.empty,
                             response_text = ''<CMD>OK</CMD>''\<rparr> \<noteq> 200" for xml
    by (simp add: sample_env_def sample_network_def)
  note c = C5_status_not_200
             [of "sample_env Map.empty 204 ''<CMD>OK</CMD>''" "[]" sample_plug _ "PyStr ''ON''"]
  from c [THEN conjunct1, THEN spec, THEN mp, OF n, THEN conjunct1]
    c [THEN conjunct2, THEN conjunct1, THEN spec, THEN mp, OF n, THEN conjunct1]
    c [THEN conjunct2, THEN conjunct2, THEN conjunct1, THEN spec, THEN mp, OF n, THEN conjunct1]
    c [THEN conjunct2, THEN conjunct2, THEN conjunct2, THEN spec, THEN mp, OF n, THEN conjunct1]
  show ?thesis by blast
qed

subsection \<open>Reading the reply\<close>

lemma first_child_is_first_match:
  assumes "firstChild n = Some (ElementNode name attrs kids)"
  shows "\<exists>more. getElementsByTagName name n = ElementNode name attrs kids # more"
  using assms by (cases n) (auto simp add: firstChild_def split: list.splits)

lemma post_xml_value_direct:
  assumes "getElementsByTagName ''CMD'' d = cmd # others"
    and "firstChild cmd = Some (TextNode s)"
  shows "post_xml_value d = Inr (Some s)"
  using assms by (simp add: post_xml_value_def item0_def nodeValue_of_def)

lemma post_xml_value_nested:
  assumes "getElementsByTagName ''CMD'' d = cmd # others"
    and "firstChild cmd
           = Some (ElementNode ''Device.System.Power.State'' attrs (TextNode s # rest))"
  shows "post_xml_value d = Inr (Some s)"
proof -
  obtain more where
    "getElementsByTagName ''Device.System.Power.State'' cmd
       = ElementNode ''Device.System.Power.State'' attrs (TextNode s # rest) # more"
    using first_child_is_first_match [OF assms(2)] by blast
  with assms show ?thesis
    by (simp add: post_xml_value_def item0_def nodeValue_of_def firstChild_def)
qed

text \<open>
  C6. Let the reply to the POST have status 200. If its text is
  \<^verbatim>\<open><CMD><Device.System.Power.State>OFF</Device.System.Power.State></CMD>\<close>, parsed
  into a \<^verbatim>\<open>CMD\<close> element whose only child is the state element holding the text
  \<^verbatim>\<open>OFF\<close>, then \<^verbatim>\<open>_post_xml\<close> returns \<^verbatim>\<open>OFF\<close>; if it is \<^verbatim>\<open><CMD>OK</CMD>\<close>, it returns
  \<^verbatim>\<open>OK\<close>. In general: when the first child of the first \<^verbatim>\<open>CMD\<close> element is a text
  node, its text is the result; when it is a state element that begins with a text
  node, that text is the result.
\<close>

theorem C6_documented_replies:
  assumes "network env (t @ [POST (url self) (auth self) [(''file'', xml)]]) = Inr r"
    and "status_code r = 200"
  shows
    "(response_text r = ''<CMD><Device.System.Power.State>OFF</Device.System.Power.State></CMD>''
        \<and> parseString env (response_text r)
            = Inr (DocumentNode [ElementNode ''CMD'' []
                     [ElementNode ''Device.System.Power.State'' [] [TextNode ''OFF'']]])
      \<longrightarrow> fst (post_xml env self xml t) = Inr (Some ''OFF''))
     \<and> (response_text r = ''<CMD>OK</CMD>''
        \<and> parseString env (response_text r)
            = Inr (DocumentNode [ElementNode ''CMD'' [] [TextNode ''OK'']])
      \<longrightarrow> fst (post_xml env self xml t) = Inr (Some ''OK''))
     \<and> (\<forall>document cmd others s.
           parseString env (response_text r) = Inr document
           \<and> getElementsByTagName ''CMD'' document = cmd # others
           \<and> firstChild cmd = Some (TextNode s)
         \<longrightarrow> fst (post_xml env self xml t) = Inr (Some s))
     \<and> (\<forall>document cmd others attrs s rest.
           parseString env (response_text r) = Inr document
           \<and> getElementsByTagName ''CMD'' document = cmd # others
           \<and> firstChild cmd
               = Some (ElementNode ''Device.System.Power.State'' attrs (TextNode s # rest))
         \<longrightarrow> fst (post_xml env self xml t) = Inr (Some s))"
proof (intro conjI allI impI)
  assume "response_text r = ''<CMD><Device.System.Power.State>OFF</Device.System.Power.State></CMD>''
        \<and> parseString env (response_text r)
            = Inr (DocumentNode [ElementNode ''CMD'' []
                     [ElementNode ''Device.System.Power.State'' [] [TextNode ''OFF'']]])"
  then have "parseString env (response_text r)
            = Inr (DocumentNode [ElementNode ''CMD'' []
                     [ElementNode ''Device.System.Power.State'' [] [TextNode ''OFF'']]])"
    by (rule conjunct2)
  from post_xml_200 [OF assms this]
  show "fst (post_xml env self xml t) = Inr (Some ''OFF'')"
    by (simp add: post_xml_value_def item0_def nodeValue_of_def firstChild_def)
next
  assume "response_text r = ''<CMD>OK</CMD>''
        \<and> parseString env (response_text r)
            = Inr (DocumentNode [ElementNode ''CMD'' [] [TextNode ''OK'']])"
  then have "parseString env (response_text r)
            = Inr (DocumentNode [ElementNode ''CMD'' [] [TextNode ''OK'']])"
    by (rule conjunct2)
  from post_xml_200 [OF assms this]
  show "fst (post_xml env self xml t) = Inr (Some ''OK'')"
    by (simp add: post_xml_value_def item0_def nodeValue_of_def firstChild_def)
next
  fix document cmd others s
  assume "parseString env (response_text r) = Inr document
           \<and> getElementsByTagName ''CMD'' document = cmd # others
           \<and> firstChild cmd = Some (TextNode s)"
  then have p: "parseString env (response_text r) = Inr document"
    and v: "post_xml_value document = Inr (Some s)"
    using post_xml_value_direct by blast+
  from post_xml_200 [OF assms p] v
  show "fst (post_xml env self xml t) = Inr (Some s)" by simp
next
  fix document cmd others attrs s rest
  assume "parseString env (response_text r) = Inr document
           \<and> getElementsByTagName ''CMD'' document = cmd # others
           \<and> firstChild cmd
               = Some (ElementNode ''Device.System.Power.State'' attrs (TextNode s # rest))"
  then have p: "parseString env (response_text r) = Inr document"
    and v: "post_xml_value document = Inr (Some s)"
    using post_xml_value_nested by blast+
  from post_xml_200 [OF assms p] v
  show "fst (post_xml env self xml t) = Inr (Some s)" by simp
qed

text \<open>C6 (witness): the two documented replies, each sent by the sample plug.\<close>

theorem C6_documented_replies_witness:
  "fst (post_xml
          (sample_env Map.empty 200
             ''<CMD><Device.System.Power.State>OFF</Device.System.Power.State></CMD>'')
          sample_plug ''x'' []) = Inr (Some ''OFF'')
   \<and> fst (post_xml (sample_env Map.empty 200 ''<CMD>OK</CMD>'') sample_plug ''x'' [])
       = Inr (Some ''OK'')"
proof -
  let ?off = "''<CMD><Device.System.Power.State>OFF</Device.System.Power.State></CMD>''"
  let ?r1 = "\<lparr>status_code = 200, headers = Map.empty, response_text = ?off\<rparr>"
  let ?r2 = "\<lparr>status_code = 200, headers = Map.empty, response_text = ''<CMD>OK</CMD>''\<rparr>"
  have n1: "network (sample_env Map.empty 200 ?off)
              ([] @ [POST (url sample_plug) (auth sample_plug) [(''file'', ''x'')]]) = Inr ?r1"
    by (simp add: sample_env_def sample_network_def)
  have n2: "network (sample_env Map.empty 200 ''<CMD>OK</CMD>'')
              ([] @ [POST (url sample_plug) (auth sample_plug) [(''file'', ''x'')]]) = Inr ?r2"
    by (simp add: sample_env_def sample_network_def)
  have s: "status_code ?r1 = 200" "status_code ?r2 = 200" by simp_all
  have p1: "response_text ?r1 = ?off
        \<and> parseString (sample_env Map.empty 200 ?off) (response_text ?r1)
            = Inr (DocumentNode [ElementNode ''CMD'' []
                     [ElementNode ''Device.System.Power.State'' [] [TextNode ''OFF'']]])"
    by (simp add: sample_env_def sample_parseString_def sample_documents_def)
  have p2: "response_text ?r2 = ''<CMD>OK</CMD>''
        \<and> parseString (sample_env Map.empty 200 ''<CMD>OK</CMD>'') (response_text ?r2)
            = Inr (DocumentNode [ElementNode ''CMD'' [] [TextNode ''OK'']])"
    by (simp add: sample_env_def sample_parseString_def sample_documents_def)
  from C6_documented_replies [OF n1 s(1)] p1 C6_documented_replies [OF n2 s(2)] p2
  show ?thesis by blast
qed

subsection \<open>The power accessors\<close>

text \<open>
  C2. The docstring of \<^verbatim>\<open>now_power\<close> promises a \<^verbatim>\<open>float\<close>. For the documented reply with
  the value \<^verbatim>\<open>12.3\<close> the accessor converts the text, drops the number and returns the
  text itself, the \<^verbatim>\<open>str\<close> \<^verbatim>\<open>"12.3"\<close>.
\<close>

theorem C2_now_power_returns_the_text:
  "fst (now_power
          (sample_env Map.empty 200
             ''<CMD><NOW_POWER><Device.System.Power.NowPower>12.3</Device.System.Power.NowPower></NOW_POWER></CMD>'')
          sample_plug []) = Inr (Some ''12.3'')"
  by (simp add: now_power_unfold reply_defs sample_defs)

lemma power_result_None:
  assumes "fst (post_xml_now_power env self xml t) = Inr None"
  shows "fst (case post_xml_now_power env self xml t of
          (Inl e, t') \<Rightarrow> (Inl e, t')
        | (Inr res, t') \<Rightarrow>
            (case py_float env res of
               Inl ValueError \<Rightarrow> (Inl (Exception ''Failed to communicate with SmartPlug''), t')
             | Inl e \<Rightarrow> (Inl e, t')
             | Inr _ \<Rightarrow> (Inr res, t'))) = Inl TypeError"
  using assms by (cases "post_xml_now_power env self xml t") (simp add: py_float_def)

lemma power_result_not_a_number:
  assumes "fst (post_xml_now_power env self xml t) = Inr (Some s)"
    and "\<not> float_accepts env s"
  shows "fst (case post_xml_now_power env self xml t of
          (Inl e, t') \<Rightarrow> (Inl e, t')
        | (Inr res, t') \<Rightarrow>
            (case py_float env res of
               Inl ValueError \<Rightarrow> (Inl (Exception ''Failed to communicate with SmartPlug''), t')
             | Inl e \<Rightarrow> (Inl e, t')
             | Inr _ \<Rightarrow> (Inr res, t')))
         = Inl (Exception ''Failed to communicate with SmartPlug'')"
  using assms by (cases "post_xml_now_power env self xml t") (simp add: py_float_def)

lemma helper_None_not_200:
  assumes "network env (t @ [POST (url self) (auth self) [(''file'', xml)]]) = Inr r
             \<and> status_code r \<noteq> 200"
  shows "fst (post_xml_now_power env self xml t) = Inr None"
  using assms post_xml_now_power_not_200 [of env t self xml r] by simp

lemma helper_None_swallowed:
  assumes "network env (t @ [POST (url self) (auth self) [(''file'', xml)]]) = Inr r
             \<and> status_code r = 200 \<and> parseString env (response_text r) = Inr d
             \<and> post_xml_now_power_value d = Inl e"
  shows "fst (post_xml_now_power env self xml t) = Inr None"
proof -
  from assms have "fst (post_xml_now_power env self xml t)
           = (case post_xml_now_power_value d of Inr val \<Rightarrow> Inr val | Inl e \<Rightarrow> Inr None)"
    using post_xml_now_power_200 [of env t self xml r d] by blast
  with assms show ?thesis by simp
qed

lemma now_power_None:
  \<open>fst (post_xml_now_power env self ''<?xml version="1.0" ?><SMARTPLUG id="edimax"><CMD id="get"><NOW_POWER><Device.System.Power.NowPower></Device.System.Power.NowPower></NOW_POWER></CMD></SMARTPLUG>'' t) = Inr None
     \<Longrightarrow> fst (now_power env self t) = Inl TypeError\<close>
  unfolding now_power_unfold by (rule power_result_None)

lemma now_energy_day_None:
  \<open>fst (post_xml_now_power env self ''<?xml version="1.0" ?><SMARTPLUG id="edimax"><CMD id="get"><NOW_POWER><Device.System.Power.NowEnergy.Day></Device.System.Power.NowEnergy.Day></NOW_POWER></CMD></SMARTPLUG>'' t) = Inr None
     \<Longrightarrow> fst (now_energy_day env self t) = Inl TypeError\<close>
  unfolding now_energy_day_unfold by (rule power_result_None)

lemma now_power_not_a_number:
  \<open>fst (post_xml_now_power env self ''<?xml version="1.0" ?><SMARTPLUG id="edimax"><CMD id="get"><NOW_POWER><Device.System.Power.NowPower></Device.System.Power.NowPower></NOW_POWER></CMD></SMARTPLUG>'' t) = Inr (Some s) \<and> \<not> float_accepts env s
     \<Longrightarrow> fst (now_power env self t) = Inl (Exception ''Failed to communicate with SmartPlug'')\<close>
  unfolding now_power_unfold by (erule conjE) (rule power_result_not_a_number)

lemma now_energy_day_not_a_number:
  \<open>fst (post_xml_now_power env self ''<?xml version="1.0" ?><SMARTPLUG id="edimax"><CMD id="get"><NOW_POWER><Device.System.Power.NowEnergy.Day></Device.System.Power.NowEnergy.Day></NOW_POWER></CMD></SMARTPLUG>'' t) = Inr (Some s) \<and> \<not> float_accepts env s
     \<Longrightarrow> fst (now_energy_day env self t) = Inl (Exception ''Failed to communicate with SmartPlug'')\<close>
  unfolding now_energy_day_unfold by (erule conjE) (rule power_result_not_a_number)

text \<open>
  C10. \<^verbatim>\<open>_post_xml_now_power\<close> returns \<^verbatim>\<open>None\<close> when the status of the reply is not 200,
  and when the status is 200 but reading the value out of the parsed document raises
  (the exception is swallowed). Whenever it returns \<^verbatim>\<open>None\<close>, \<^verbatim>\<open>now_power\<close> and
  \<^verbatim>\<open>now_energy_day\<close> fail with \<^verbatim>\<open>TypeError\<close>, the exception of \<^verbatim>\<open>float(None)\<close> that the
  \<^verbatim>\<open>except ValueError\<close> clause lets through. For a text that is no number they fail
  with another exception, \<^verbatim>\<open>Exception("Failed to communicate with SmartPlug")\<close>.
\<close>

theorem C10_None_raises_TypeError:
  \<open>(\<forall>xml r. network env (t @ [POST (url self) (auth self) [(''file'', xml)]]) = Inr r
             \<and> status_code r \<noteq> 200
           \<longrightarrow> fst (post_xml_now_power env self xml t) = Inr None)
   \<and> (\<forall>xml r d e. network env (t @ [POST (url self) (auth self) [(''file'', xml)]]) = Inr r
             \<and> status_code r = 200 \<and> parseString env (response_text r) = Inr d
             \<and> post_xml_now_power_value d = Inl e
           \<longrightarrow> fst (post_xml_now_power env self xml t) = Inr None)
   \<and> (fst (post_xml_now_power env self ''<?xml version="1.0" ?><SMARTPLUG id="edimax"><CMD id="get"><NOW_POWER><Device.System.Power.NowPower></Device.System.Power.NowPower></NOW_POWER></CMD></SMARTPLUG>'' t) = Inr None
        \<longrightarrow> fst (now_power env self t) = Inl TypeError)
   \<and> (fst (post_xml_now_power env self ''<?xml version="1.0" ?><SMARTPLUG id="edimax"><CMD id="get"><NOW_POWER><Device.System.Power.NowEnergy.Day></Device.System.Power.NowEnergy.Day></NOW_POWER></CMD></SMARTPLUG>'' t) = Inr None
        \<longrightarrow> fst (now_energy_day env self t) = Inl TypeError)
   \<and> (\<forall>s. fst (post_xml_now_power env self ''<?xml version="1.0" ?><SMARTPLUG id="edimax"><CMD id="get"><NOW_POWER><Device.System.Power.NowPower></Device.System.Power.NowPower></NOW_POWER></CMD></SMARTPLUG>'' t) = Inr (Some s)
          \<and> \<not> float_accepts env s
        \<longrightarrow> fst (now_power env self t) = Inl (Exception ''Failed to communicate with SmartPlug''))
   \<and> (\<forall>s. fst (post_xml_now_power env self ''<?xml version="1.0" ?><SMARTPLUG id="edimax"><CMD id="get"><NOW_POWER><Device.System.Power.NowEnergy.Day></Device.System.Power.NowEnergy.Day></NOW_POWER></CMD></SMARTPLUG>'' t) = Inr (Some s)
          \<and> \<not> float_accepts env s
        \<longrightarrow> fst (now_energy_day env self t) = Inl (Exception ''Failed to communicate with SmartPlug''))\<close>
  by (intro conjI allI impI)
    (erule helper_None_not_200 helper_None_swallowed now_power_None now_energy_day_None
       now_power_not_a_number now_energy_day_not_a_number)+

text \<open>
  C10 (witness): a plug that answers with status 500, one that answers with an empty
  \<^verbatim>\<open>NowPower\<close> element (reading its value raises \<^verbatim>\<open>AttributeError\<close>, which is swallowed),
  and one that answers with the text \<^verbatim>\<open>abc\<close>.
\<close>

theorem C10_None_raises_TypeError_witness:
  "fst (now_power (sample_env Map.empty 500 '''') sample_plug []) = Inl TypeError
   \<and> fst (now_energy_day (sample_env Map.empty 500 '''') sample_plug []) = Inl TypeError
   \<and> fst (now_power
            (sample_env Map.empty 200
               ''<CMD><NOW_POWER><Device.System.Power.NowPower/></NOW_POWER></CMD>'')
            sample_plug []) = Inl TypeError
   \<and> fst (now_power
            (sample_env Map.empty 200
               ''<CMD><NOW_POWER><Device.System.Power.NowPower>abc</Device.System.Power.NowPower></NOW_POWER></CMD>'')
            sample_plug []) = Inl (Exception ''Failed to communicate with SmartPlug'')"
proof -
  let ?e500 = "sample_env Map.empty 500 ''''"
  let ?empty = "sample_env Map.empty 200
               ''<CMD><NOW_POWER><Device.System.Power.NowPower/></NOW_POWER></CMD>''"
  let ?abc = "sample_env Map.empty 200
               ''<CMD><NOW_POWER><Device.System.Power.NowPower>abc</Device.System.Power.NowPower></NOW_POWER></CMD>''"
  have n: "network ?e500 ([] @ [POST (url sample_plug) (auth sample_plug) [(''file'', xml)]])
             = Inr \<lparr>status_code = 500, headers = Map.empty, response_text = ''''\<rparr>
           \<and> status_code \<lparr>status_code = 500, headers = Map.empty, response_text = ''''\<rparr> \<noteq> 200"
    for xml
    by (simp add: sample_env_def sample_network_def)
  note c500 = C10_None_raises_TypeError [of ?e500 "[]" sample_plug]
  from c500 n have h500: "fst (post_xml_now_power ?e500 sample_plug xml []) = Inr None" for xml
    by blast
  from c500 h500 have 1: "fst (now_power ?e500 sample_plug []) = Inl TypeError"
    and 2: "fst (now_energy_day ?e500 sample_plug []) = Inl TypeError"
    by blast+
  have m: "network ?empty ([] @ [POST (url sample_plug) (auth sample_plug) [(''file'', xml)]])
             = Inr \<lparr>status_code = 200, headers = Map.empty,
                    response_text = ''<CMD><NOW_POWER><Device.System.Power.NowPower/></NOW_POWER></CMD>''\<rparr>
           \<and> status_code \<lparr>status_code = 200, headers = Map.empty,
                    response_text = ''<CMD><NOW_POWER><Device.System.Power.NowPower/></NOW_POWER></CMD>''\<rparr> = 200
           \<and> parseString ?empty (response_text \<lparr>status_code = 200, headers = Map.empty,
                    response_text = ''<CMD><NOW_POWER><Device.System.Power.NowPower/></NOW_POWER></CMD>''\<rparr>)
             = Inr (DocumentNode [ElementNode ''CMD'' []
                      [ElementNode ''NOW_POWER'' []
                         [ElementNode ''Device.System.Power.NowPower'' [] []]]])
           \<and> post_xml_now_power_value (DocumentNode [ElementNode ''CMD'' []
                      [ElementNode ''NOW_POWER'' []
                         [ElementNode ''Device.System.Power.NowPower'' [] []]]]) = Inl AttributeError"
    for xml
    by (simp add: sample_defs reply_defs)
  note cempty = C10_None_raises_TypeError [of ?empty "[]" sample_plug]
  from cempty m have hempty: "fst (post_xml_now_power ?empty sample_plug xml []) = Inr None" for xml
    by blast
  from cempty hempty have 3: "fst (now_power ?empty sample_plug []) = Inl TypeError"
    by blast
  have "fst (post_xml_now_power ?abc sample_plug xml []) = Inr (Some ''abc'')
        \<and> \<not> float_accepts ?abc ''abc''" for xml
    by (simp add: sample_defs reply_defs)
  with C10_None_raises_TypeError [of ?abc "[]" sample_plug]
  have 4: "fst (now_power ?abc sample_plug []) = Inl (Exception ''Failed to communicate with SmartPlug'')"
    by blast
  from 1 2 3 4 show ?thesis by blast
qed

subsection \<open>The constructor\<close>

lemma begins_with_Digest:
  "(take 6 h = ''Digest'') = (\<exists>rest. h = ''Digest'' @ rest)"
proof
  assume "take 6 h = ''Digest''"
  then have "h = ''Digest'' @ drop 6 h"
    by (metis append_take_drop_id)
  then show "\<exists>rest. h = ''Digest'' @ rest" ..
next
  assume "\<exists>rest. h = ''Digest'' @ rest"
  then show "take 6 h = ''Digest''" by auto
qed

lemma init_cases:
  "init env host credentials t =
     (case network env (t @ [HEAD (''http://'' @ host @ '':10000/smartplug.cgi'')]) of
        Inl e \<Rightarrow> Inl e
      | Inr r \<Rightarrow>
          (case headers r ''WWW-Authenticate'' of
             None \<Rightarrow> Inl (KeyError ''www-authenticate'')
           | Some h \<Rightarrow>
               Inr \<lparr>url = ''http://'' @ host @ '':10000/smartplug.cgi'',
                    auth = (if take 6 h = ''Digest''
                            then HTTPDigestAuth (fst credentials) (snd credentials)
                            else Tuple (fst credentials) (snd credentials))\<rparr>),
      t @ [HEAD (''http://'' @ host @ '':10000/smartplug.cgi'')])"
  by (simp add: init_def requests_head_def Let_def split: sum.splits option.splits)

text \<open>
  C7. Whenever the probe is answered and the reply has a \<^verbatim>\<open>WWW-Authenticate\<close> header, the
  constructor returns an instance after that one request, and the instance
  authenticates by Digest if and only if the value of the header begins with
  \<^verbatim>\<open>Digest\<close>, by Basic otherwise, in both cases with the credentials given. After that,
  whatever accessors are called on the instance and in whatever order, each call sends
  one POST, and every one of these POSTs carries the URL and the credentials object
  fixed at construction: the scheme never changes, and no second probe is sent.
\<close>

theorem C7_scheme_resolved_by_probe:
  assumes "network env (t @ [HEAD (''http://'' @ host @ '':10000/smartplug.cgi'')]) = Inr r"
    and "headers r ''WWW-Authenticate'' = Some h"
  shows "\<exists>plug.
       init env host credentials t
         = (Inr plug, t @ [HEAD (''http://'' @ host @ '':10000/smartplug.cgi'')])
     \<and> url plug = ''http://'' @ host @ '':10000/smartplug.cgi''
     \<and> auth plug = (if \<exists>rest. h = ''Digest'' @ rest
                    then HTTPDigestAuth (fst credentials) (snd credentials)
                    else Tuple (fst credentials) (snd credentials))
     \<and> (auth_scheme (auth plug) = Digest) = (\<exists>rest. h = ''Digest'' @ rest)
     \<and> (auth_scheme (auth plug) = Basic) = (\<nexists>rest. h = ''Digest'' @ rest)
     \<and> (\<forall>calls. \<exists>posts.
           perform_all env plug calls (t @ [HEAD (''http://'' @ host @ '':10000/smartplug.cgi'')])
             = (t @ [HEAD (''http://'' @ host @ '':10000/smartplug.cgi'')]) @ posts
           \<and> length posts = length calls
           \<and> list_all (\<lambda>q. \<exists>files. q = POST (url plug) (auth plug) files) posts)"
proof -
  let ?plug = "\<lparr>url = ''http://'' @ host @ '':10000/smartplug.cgi'',
               auth = (if \<exists>rest. h = ''Digest'' @ rest
                       then HTTPDigestAuth (fst credentials) (snd credentials)
                       else Tuple (fst credentials) (snd credentials))\<rparr>"
  have i: "init env host credentials t
         = (Inr ?plug, t @ [HEAD (''http://'' @ host @ '':10000/smartplug.cgi'')])"
    using assms by (simp add: init_cases begins_with_Digest)
  have d: "(auth_scheme (auth ?plug) = Digest) = (\<exists>rest. h = ''Digest'' @ rest)"
    and b: "(auth_scheme (auth ?plug) = Basic) = (\<nexists>rest. h = ''Digest'' @ rest)"
    by simp_all
  have u: "url ?plug = ''http://'' @ host @ '':10000/smartplug.cgi''"
    and a: "auth ?plug = (if \<exists>rest. h = ''Digest'' @ rest
                    then HTTPDigestAuth (fst credentials) (snd credentials)
                    else Tuple (fst credentials) (snd credentials))"
    by simp_all
  have c: "\<forall>calls. \<exists>posts.
           perform_all env ?plug calls (t @ [HEAD (''http://'' @ host @ '':10000/smartplug.cgi'')])
             = (t @ [HEAD (''http://'' @ host @ '':10000/smartplug.cgi'')]) @ posts
           \<and> length posts = length calls
           \<and> list_all (\<lambda>q. \<exists>files. q = POST (url ?plug) (auth ?plug) files) posts"
    using perform_all_trace [of env ?plug] by blast
  from i u a d b c show ?thesis by blast
qed

text \<open>
  C7 (witness): a probe answered with \<^verbatim>\<open>WWW-Authenticate: Digest realm="x"\<close> gives an
  instance that holds an \<^verbatim>\<open>HTTPDigestAuth\<close>; a probe answered with
  \<^verbatim>\<open>WWW-Authenticate: Basic realm="x"\<close> gives an instance that holds the pair, sent as
  Basic. In both cases every later request is a POST with that object.
\<close>

theorem C7_scheme_resolved_by_probe_witness:
  \<open>(\<exists>plug.
      init (sample_env [''WWW-Authenticate'' \<mapsto> ''Digest realm="x"''] 200 ''<CMD>OK</CMD>'')
        ''172.16.100.75'' (''admin'', ''1234'') []
        = (Inr plug, [HEAD ''http://172.16.100.75:10000/smartplug.cgi''])
      \<and> auth plug = HTTPDigestAuth ''admin'' ''1234''
      \<and> auth_scheme (auth plug) = Digest
      \<and> (\<forall>calls. \<exists>posts.
           perform_all (sample_env [''WWW-Authenticate'' \<mapsto> ''Digest realm="x"''] 200 ''<CMD>OK</CMD>'')
             plug calls [HEAD ''http://172.16.100.75:10000/smartplug.cgi'']
             = [HEAD ''http://172.16.100.75:10000/smartplug.cgi''] @ posts
           \<and> length posts = length calls
           \<and> list_all (\<lambda>q. \<exists>files. q = POST ''http://172.16.100.75:10000/smartplug.cgi''
                                       (HTTPDigestAuth ''admin'' ''1234'') files) posts))
   \<and> (\<exists>plug.
      init (sample_env [''WWW-Authenticate'' \<mapsto> ''Basic realm="x"''] 200 ''<CMD>OK</CMD>'')
        ''172.16.100.75'' (''admin'', ''1234'') []
        = (Inr plug, [HEAD ''http://172.16.100.75:10000/smartplug.cgi''])
      \<and> auth plug = Tuple ''admin'' ''1234''
      \<and> auth_scheme (auth plug) = Basic
      \<and> (\<forall>calls. \<exists>posts.
           perform_all (sample_env [''WWW-Authenticate'' \<mapsto> ''Basic realm="x"''] 200 ''<CMD>OK</CMD>'')
             plug calls [HEAD ''http://172.16.100.75:10000/smartplug.cgi'']
             = [HEAD ''http://172.16.100.75:10000/smartplug.cgi''] @ posts
           \<and> length posts = length calls
           \<and> list_all (\<lambda>q. \<exists>files. q = POST ''http://172.16.100.75:10000/smartplug.cgi''
                                       (Tuple ''admin'' ''1234'') files) posts))\<close>
proof -
  have n1: \<open>network (sample_env [''WWW-Authenticate'' \<mapsto> ''Digest realm="x"''] 200 ''<CMD>OK</CMD>'')
              ([] @ [HEAD (''http://'' @ ''172.16.100.75'' @ '':10000/smartplug.cgi'')])
            = Inr \<lparr>status_code = 401, headers = [''WWW-Authenticate'' \<mapsto> ''Digest realm="x"''],
                   response_text = ''''\<rparr>\<close>
    by (simp add: sample_env_def sample_network_def)
  have n2: \<open>network (sample_env [''WWW-Authenticate'' \<mapsto> ''Basic realm="x"''] 200 ''<CMD>OK</CMD>'')
              ([] @ [HEAD (''http://'' @ ''172.16.100.75'' @ '':10000/smartplug.cgi'')])
            = Inr \<lparr>status_code = 401, headers = [''WWW-Authenticate'' \<mapsto> ''Basic realm="x"''],
                   response_text = ''''\<rparr>\<close>
    by (simp add: sample_env_def sample_network_def)
  have h1: \<open>headers \<lparr>status_code = 401, headers = [''WWW-Authenticate'' \<mapsto> ''Digest realm="x"''],
                   response_text = ''''\<rparr> ''WWW-Authenticate'' = Some ''Digest realm="x"''\<close>
    and h2: \<open>headers \<lparr>status_code = 401, headers = [''WWW-Authenticate'' \<mapsto> ''Basic realm="x"''],
                   response_text = ''''\<rparr> ''WWW-Authenticate'' = Some ''Basic realm="x"''\<close>
    by simp_all
  have p1: \<open>\<exists>rest. ''Digest realm="x"'' = ''Digest'' @ rest\<close>
    unfolding begins_with_Digest [symmetric] by simp
  have p2: \<open>\<nexists>rest. ''Basic realm="x"'' = ''Digest'' @ rest\<close>
    unfolding begins_with_Digest [symmetric] by simp
  have 1: \<open>\<exists>plug.
      init (sample_env [''WWW-Authenticate'' \<mapsto> ''Digest realm="x"''] 200 ''<CMD>OK</CMD>'')
        ''172.16.100.75'' (''admin'', ''1234'') []
        = (Inr plug, [HEAD ''http://172.16.100.75:10000/smartplug.cgi''])
      \<and> auth plug = HTTPDigestAuth ''admin'' ''1234''
      \<and> auth_scheme (auth plug) = Digest
      \<and> (\<forall>calls. \<exists>posts.
           perform_all (sample_env [''WWW-Authenticate'' \<mapsto> ''Digest realm="x"''] 200 ''<CMD>OK</CMD>'')
             plug calls [HEAD ''http://172.16.100.75:10000/smartplug.cgi'']
             = [HEAD ''http://172.16.100.75:10000/smartplug.cgi''] @ posts
           \<and> length posts = length calls
           \<and> list_all (\<lambda>q. \<exists>files. q = POST ''http://172.16.100.75:10000/smartplug.cgi''
                                       (HTTPDigestAuth ''admin'' ''1234'') files) posts)\<close>
    using C7_scheme_resolved_by_probe [OF n1 h1, of "(''admin'', ''1234'')"] p1
    by clarsimp
  have 2: \<open>\<exists>plug.
      init (sample_env [''WWW-Authenticate'' \<mapsto> ''Basic realm="x"''] 200 ''<CMD>OK</CMD>'')
        ''172.16.100.75'' (''admin'', ''1234'') []
        = (Inr plug, [HEAD ''http://172.16.100.75:10000/smartplug.cgi''])
      \<and> auth plug = Tuple ''admin'' ''1234''
      \<and> auth_scheme (auth plug) = Basic
      \<and> (\<forall>calls. \<exists>posts.
           perform_all (sample_env [''WWW-Authenticate'' \<mapsto> ''Basic realm="x"''] 200 ''<CMD>OK</CMD>'')
             plug calls [HEAD ''http://172.16.100.75:10000/smartplug.cgi'']
             = [HEAD ''http://172.16.100.75:10000/smartplug.cgi''] @ posts
           \<and> length posts = length calls
           \<and> list_all (\<lambda>q. \<exists>files. q = POST ''http://172.16.100.75:10000/smartplug.cgi''
                                       (Tuple ''admin'' ''1234'') files) posts)\<close>
    using C7_scheme_resolved_by_probe [OF n2 h2, of "(''admin'', ''1234'')"] p2
    by clarsimp
  from 1 2 show ?thesis by (rule conjI)
qed

text \<open>
  C8. When the probe is answered and the reply has no \<^verbatim>\<open>WWW-Authenticate\<close> header, the
  constructor does not fall back to Basic: the header lookup raises \<^verbatim>\<open>KeyError\<close>, which
  nothing catches, and no instance is returned.
\<close>

theorem C8_missing_header_is_KeyError:
  assumes "network env (t @ [HEAD (''http://'' @ host @ '':10000/smartplug.cgi'')]) = Inr r"
    and "headers r ''WWW-Authenticate'' = None"
  shows "init env host credentials t
           = (Inl (KeyError ''www-authenticate''),
              t @ [HEAD (''http://'' @ host @ '':10000/smartplug.cgi'')])"
  using assms by (simp add: init_cases)

text \<open>C8 (witness): the sample plug answering the probe with no headers at all.\<close>

theorem C8_missing_header_is_KeyError_witness:
  "fst (init (sample_env Map.empty 200 ''<CMD>OK</CMD>'') ''172.16.100.75'' (''admin'', ''1234'') [])
     = Inl (KeyError ''www-authenticate'')"
proof -
  have "network (sample_env Map.empty 200 ''<CMD>OK</CMD>'')
          ([] @ [HEAD (''http://'' @ ''172.16.100.75'' @ '':10000/smartplug.cgi'')])
        = Inr \<lparr>status_code = 401, headers = Map.empty, response_text = ''''\<rparr>"
    by (simp add: sample_env_def sample_network_def)
  from C8_missing_header_is_KeyError [OF this] show ?thesis by simp
qed

end
